theory Spec2Isabelle
  imports Complex_Main "HOL-Library.Sublist"
begin

section \<open>Python values used by the analyser\<close>

text \<open>
  The analyser works on Python numbers. They are modelled as reals: the thresholds,
  penalties and weights of the source are decimal constants, and the properties below are
  comparisons and clamps on them. \<open>round(x, n)\<close> rounds to \<open>n\<close> decimals, a tie going to the
  even neighbour.
\<close>

definition round_half_even :: "real \<Rightarrow> int" where
  "round_half_even x =
     (let f = \<lfloor>x\<rfloor>; d = x - of_int f
      in if d < 1 / 2 then f else if 1 / 2 < d then f + 1 else if even f then f else f + 1)"

definition py_round :: "real \<Rightarrow> nat \<Rightarrow> real" where
  "py_round x ndigits = of_int (round_half_even (x * 10 ^ ndigits)) / 10 ^ ndigits"

text \<open>\<open>d.get(key, default)\<close> on a dictionary written as an association list.\<close>

definition dict_get :: "('k \<times> 'v) list \<Rightarrow> 'k \<Rightarrow> 'v \<Rightarrow> 'v" where
  "dict_get d k dflt = (case map_of d k of Some v \<Rightarrow> v | None \<Rightarrow> dflt)"

text \<open>\<open>o.get(default)\<close> on one optional key of a dictionary.\<close>

definition get_or :: "'a option \<Rightarrow> 'a \<Rightarrow> 'a" where
  "get_or v dflt = (case v of Some x \<Rightarrow> x | None \<Rightarrow> dflt)"

text \<open>
  \<open>str.lower()\<close> on the ASCII letters; a string is a list of bytes (UTF-8), and bytes
  outside \<open>A..Z\<close> are left alone.
\<close>

definition lower_char :: "char \<Rightarrow> char" where
  "lower_char c =
     (let n = (of_char c :: nat) in if 65 \<le> n \<and> n \<le> 90 then char_of (n + 32) else c)"

definition lower :: "string \<Rightarrow> string" where
  "lower s = map lower_char s"

text \<open>\<open>any(keyword in text for keyword in keywords)\<close>: a substring test per keyword.\<close>

definition any_keyword_in :: "string list \<Rightarrow> string \<Rightarrow> bool" where
  "any_keyword_in keywords text = list_ex (\<lambda>keyword. sublist keyword text) keywords"

section \<open>Data model\<close>

text \<open>
  The dictionary returned by \<open>perform_local_analysis\<close> (the spec's LocalMetrics).
\<close>

record local_analysis =
  brown_rot_percentage :: real
  black_spots_percentage :: real
  color_variance :: real
  texture_score :: real
  shape_integrity :: real
  freshness_score :: real

text \<open>
  The dictionary parsed from the remote reply, or synthesised by the keyword classifier
  (the spec's RemoteVerdict). A key that the dictionary lacks is \<open>None\<close>; the values have the
  types of the spec's data model. An absent verdict (Python \<open>None\<close>, or any falsy value) is
  \<open>None :: gemini_analysis option\<close>.
\<close>

record gemini_analysis =
  fruit_type :: "string option"
  condition_category :: "string option"
  confidence_score :: "real option"
  detailed_analysis :: "string option"
  defects_found :: "string list option"
  ripeness :: "string option"
  ai_freshness_score :: "real option"
  recommendations :: "string option"
  key_observations :: "string list option"
  safety_assessment :: "string option"
  prevention_tips :: "string list option"
  storage_advice :: "string option"
  action_required :: "string option"

text \<open>
  The part of the fused result that the fusion step computes itself: the display
  condition, the confidence (rounded to one decimal), the description and the colour. The
  other entries of the result dictionary are copies of the inputs.
\<close>

record analysis_result =
  condition :: string
  confidence :: real
  description :: string
  color :: string

section \<open>Display labels\<close>

text \<open>The labels start with an emoji; they are written as their UTF-8 bytes.\<close>

definition emoji_star :: string where
  "emoji_star = [CHR 0xF0, CHR 0x9F, CHR 0x8C, CHR 0x9F]"

definition emoji_check :: string where
  "emoji_check = [CHR 0xE2, CHR 0x9C, CHR 0x85]"

definition emoji_warning :: string where
  "emoji_warning = [CHR 0xE2, CHR 0x9A, CHR 0xA0, CHR 0xEF, CHR 0xB8, CHR 0x8F]"

definition emoji_no_entry :: string where
  "emoji_no_entry = [CHR 0xF0, CHR 0x9F, CHR 0x9A, CHR 0xAB]"

definition emoji_bug :: string where
  "emoji_bug = [CHR 0xF0, CHR 0x9F, CHR 0x90, CHR 0x9B]"

definition emoji_question :: string where
  "emoji_question = [CHR 0xE2, CHR 0x9D, CHR 0x93]"

definition EXCELLENT_LABEL :: string where
  "EXCELLENT_LABEL = emoji_star @ '' EXCELLENT CONDITION - PREMIUM QUALITY''"

definition GOOD_LABEL :: string where
  "GOOD_LABEL = emoji_check @ '' GOOD CONDITION - FRESH & HEALTHY''"

definition FAIR_LABEL :: string where
  "FAIR_LABEL = emoji_warning @ '' FAIR CONDITION - MONITOR CLOSELY''"

definition POOR_LABEL :: string where
  "POOR_LABEL = emoji_warning @ '' POOR CONDITION - USE IMMEDIATELY''"

definition BAD_LABEL :: string where
  "BAD_LABEL = emoji_no_entry @ '' BAD CONDITION - DO NOT CONSUME''"

definition INSECT_LABEL :: string where
  "INSECT_LABEL = emoji_bug @ '' INSECT DAMAGE - REMOVE FROM BATCH''"

definition UNCLEAR_LABEL :: string where
  "UNCLEAR_LABEL = emoji_question @ '' UNCLEAR - CHECK MANUALLY''"

definition CONFLICTING_LABEL :: string where
  "CONFLICTING_LABEL = emoji_warning @ '' CONFLICTING RESULTS - MANUAL CHECK NEEDED''"

section \<open>Result fusion (\<open>combine_analysis_results\<close>)\<close>

definition condition_mapping :: "(string \<times> string) list" where
  "condition_mapping =
     [(''EXCELLENT'', EXCELLENT_LABEL),
      (''GOOD'', GOOD_LABEL),
      (''FAIR'', FAIR_LABEL),
      (''POOR'', POOR_LABEL),
      (''BAD'', BAD_LABEL),
      (''INSECT_DAMAGED'', INSECT_LABEL)]"

definition color_mapping :: "(string \<times> string) list" where
  "color_mapping =
     [(''EXCELLENT'', ''#00ff00''),
      (''GOOD'', ''#32cd32''),
      (''FAIR'', ''#ffa500''),
      (''POOR'', ''#ff6347''),
      (''BAD'', ''#ff0000''),
      (''INSECT_DAMAGED'', ''#8b0000'')]"

definition combine_analysis_results ::
  "gemini_analysis option \<Rightarrow> local_analysis \<Rightarrow> analysis_result" where
  "combine_analysis_results gemini_result la =
     (case gemini_result of
        Some g \<Rightarrow>
          (let ai_condition = get_or (condition_category g) ''FAIR'';
               ai_confidence = get_or (confidence_score g) 50;
               mapped = dict_get condition_mapping ai_condition UNCLEAR_LABEL;
               mapped_color = dict_get color_mapping ai_condition ''#808080'';
               local_bad_score =
                 brown_rot_percentage la * 2.5 + black_spots_percentage la * 3.5;
               descr = get_or (detailed_analysis g) ''AI analysis completed''
           in if local_bad_score > 20 \<and> ai_condition \<in> set [''EXCELLENT'', ''GOOD'']
              then \<lparr>condition = CONFLICTING_LABEL,
                    confidence = py_round (max (ai_confidence - 15) 50) 1,
                    description = descr, color = ''#ff6347''\<rparr>
              else if local_bad_score < 5 \<and> ai_condition \<in> set [''BAD'', ''POOR'']
              then \<lparr>condition = mapped,
                    confidence = py_round (max (ai_confidence - 10) 60) 1,
                    description = descr, color = mapped_color\<rparr>
              else \<lparr>condition = mapped,
                    confidence = py_round (min (ai_confidence + 5) 95) 1,
                    description = descr, color = mapped_color\<rparr>)
      | None \<Rightarrow>
          (let local_bad_score =
                 brown_rot_percentage la * 3 + black_spots_percentage la * 4;
               freshness = freshness_score la
           in if local_bad_score > 25 \<or> freshness < 30
              then \<lparr>condition = BAD_LABEL, confidence = py_round 75 1,
                    description = ''Significant decay and quality issues detected.'',
                    color = ''#ff0000''\<rparr>
              else if local_bad_score > 15 \<or> freshness < 50
              then \<lparr>condition = POOR_LABEL, confidence = py_round 70 1,
                    description = ''Quality declining rapidly. Use within 24 hours.'',
                    color = ''#ff6347''\<rparr>
              else if local_bad_score > 8 \<or> freshness < 70
              then \<lparr>condition = FAIR_LABEL, confidence = py_round 65 1,
                    description = ''Some quality concerns. Monitor daily.'',
                    color = ''#ffa500''\<rparr>
              else if freshness > 85 \<and> local_bad_score < 3
              then \<lparr>condition = EXCELLENT_LABEL, confidence = py_round 80 1,
                    description = ''Outstanding quality fruit.'',
                    color = ''#00ff00''\<rparr>
              else \<lparr>condition = GOOD_LABEL, confidence = py_round 75 1,
                    description = ''Good quality fruit suitable for consumption.'',
                    color = ''#32cd32''\<rparr>))"

section \<open>Result fusion, variant \<open>goodUI\<close> (\<open>make_final_decision_gemini_priority\<close>)\<close>

definition goodUI_condition_mapping :: "(string \<times> string) list" where
  "goodUI_condition_mapping =
     [(''EXCELLENT'', emoji_check @ '' EXCELLENT CONDITION''),
      (''GOOD'', emoji_check @ '' GOOD CONDITION''),
      (''FAIR'', emoji_warning @ '' FAIR CONDITION''),
      (''POOR'', emoji_warning @ '' POOR CONDITION''),
      (''BAD'', emoji_no_entry @ '' BAD CONDITION - DISCARD''),
      (''INSECT_DAMAGED'', emoji_bug @ '' INSECT DAMAGE - REMOVE'')]"

definition goodUI_color_mapping :: "(string \<times> string) list" where
  "goodUI_color_mapping =
     [(''EXCELLENT'', ''#00ff00''),
      (''GOOD'', ''#90ee90''),
      (''FAIR'', ''#ffa500''),
      (''POOR'', ''#ff6347''),
      (''BAD'', ''#ff0000''),
      (''INSECT_DAMAGED'', ''#8b0000'')]"

definition make_final_decision_gemini_priority ::
  "gemini_analysis option \<Rightarrow> local_analysis \<Rightarrow> analysis_result" where
  "make_final_decision_gemini_priority gemini_result la =
     (case gemini_result of
        Some g \<Rightarrow>
          (let ai_condition = get_or (condition_category g) ''FAIR'';
               ai_confidence = get_or (confidence_score g) 50;
               mapped = dict_get goodUI_condition_mapping ai_condition
                          (emoji_question @ '' UNCLEAR'');
               mapped_color = dict_get goodUI_color_mapping ai_condition ''#808080'';
               local_bad_score =
                 brown_rot_percentage la * 2 + black_spots_percentage la * 3;
               conf = (if local_bad_score > 15 \<and> ai_condition \<in> set [''EXCELLENT'', ''GOOD'']
                       then max (ai_confidence - 10) 60
                       else ai_confidence);
               descr = get_or (detailed_analysis g) ''AI analysis completed''
           in \<lparr>condition = mapped,
               confidence = py_round conf 1,
               description = (if length descr > 200 then take 200 descr @ ''...'' else descr),
               color = mapped_color\<rparr>)
      | None \<Rightarrow>
          (let local_bad_score =
                 brown_rot_percentage la * 3 + black_spots_percentage la * 4
           in if local_bad_score > 20
              then \<lparr>condition = emoji_no_entry @ '' BAD CONDITION - DISCARD'',
                    confidence = py_round 75 1,
                    description = ''Local analysis detected significant defects. This fruit should be discarded.'',
                    color = ''#ff0000''\<rparr>
              else if local_bad_score > 10
              then \<lparr>condition = emoji_warning @ '' FAIR CONDITION'',
                    confidence = py_round 65 1,
                    description = ''Local analysis shows some quality issues. Use soon.'',
                    color = ''#ffa500''\<rparr>
              else \<lparr>condition = emoji_check @ '' GOOD CONDITION'',
                    confidence = py_round (freshness_score la) 1,
                    description = ''Local analysis shows good quality'',
                    color = ''#90ee90''\<rparr>))"

definition goodUI_combine_analysis_results ::
  "gemini_analysis option \<Rightarrow> local_analysis \<Rightarrow> analysis_result" where
  "goodUI_combine_analysis_results gemini_result la =
     make_final_decision_gemini_priority gemini_result la"

section \<open>Keyword fallback classifier (\<open>create_fallback_analysis\<close>)\<close>

text \<open>
  The dictionary \<open>conditions\<close> is iterated in insertion order, so it is an association
  list; the loop stops at the first category one of whose keywords occurs in the lowered
  text.
\<close>

definition conditions :: "(string \<times> string list) list" where
  "conditions =
     [(''BAD'', [''rotten'', ''spoiled'', ''moldy'', ''decay'', ''inedible'', ''toxic'', ''dangerous'']),
      (''INSECT_DAMAGED'', [''insect'', ''bug'', ''worm'', ''pest'', ''holes'', ''tunnels'', ''larvae'']),
      (''POOR'', [''poor'', ''bad quality'', ''deteriorating'', ''declining'']),
      (''FAIR'', [''fair'', ''moderate'', ''acceptable'', ''okay'']),
      (''GOOD'', [''good'', ''fresh'', ''healthy'', ''nice'']),
      (''EXCELLENT'', [''excellent'', ''perfect'', ''pristine'', ''ideal'', ''premium''])]"

definition actions :: "(string \<times> string) list" where
  "actions =
     [(''BAD'', ''discard immediately''),
      (''INSECT_DAMAGED'', ''remove from batch''),
      (''POOR'', ''use within 24 hours''),
      (''FAIR'', ''use within 2-3 days''),
      (''GOOD'', ''consume normally''),
      (''EXCELLENT'', ''enjoy at your leisure'')]"

definition default_tips :: "string list" where
  "default_tips =
     [''Store at proper temperature'',
      ''Handle with care'',
      ''Check regularly'',
      ''Maintain cleanliness'',
      ''Use first-in-first-out rotation'']"

definition fallback_prevention_tips :: "(string \<times> string list) list" where
  "fallback_prevention_tips =
     [(''BAD'',
       [''Store fruits in cool, dry place'',
        ''Check daily for spoilage'',
        ''Remove bad fruits immediately'',
        ''Improve air circulation'',
        ''Use within optimal timeframe'']),
      (''INSECT_DAMAGED'',
       [''Use protective mesh covers'',
        ''Apply organic pest deterrents'',
        ''Inspect fruits before storage'',
        ''Keep storage area clean'',
        ''Use pheromone traps'']),
      (''default'', default_tips)]"

definition classify :: "string \<Rightarrow> string \<times> real" where
  "classify text_lower =
     (case find (\<lambda>(cond, keywords). any_keyword_in keywords text_lower) conditions of
        Some (cond, keywords) \<Rightarrow> (cond, if cond \<in> set [''FAIR'', ''POOR''] then 70 else 85)
      | None \<Rightarrow> (''FAIR'', 60))"

definition create_fallback_analysis :: "string \<Rightarrow> gemini_analysis" where
  "create_fallback_analysis response_text =
     (let text_lower = lower response_text;
          (cond, conf) = classify text_lower
      in \<lparr>fruit_type = Some ''unknown fruit'',
          condition_category = Some cond,
          confidence_score = Some conf,
          detailed_analysis = Some (take 200 response_text @ ''...''),
          defects_found = Some [],
          ripeness = Some ''unknown'',
          ai_freshness_score = Some 50,
          recommendations =
            Some (''Based on visual analysis: '' @ dict_get actions cond ''monitor closely''),
          key_observations = Some [''AI analysis incomplete - based on limited data''],
          safety_assessment =
            Some (if cond \<in> set [''BAD'', ''POOR''] then ''questionable'' else ''likely safe''),
          prevention_tips =
            Some (dict_get fallback_prevention_tips cond
                    (dict_get fallback_prevention_tips ''default'' [])),
          storage_advice = Some ''Store properly based on fruit type'',
          action_required = Some (dict_get actions cond ''check manually'')\<rparr>)"

section \<open>Keyword fallback classifier, variant \<open>goodUI\<close>\<close>

definition goodUI_classify :: "string \<Rightarrow> string \<times> real \<times> string \<times> string list" where
  "goodUI_classify text_lower =
     (if any_keyword_in [''rotten'', ''spoiled'', ''moldy'', ''severely damaged'',
                         ''bad condition'', ''unsafe'', ''decay''] text_lower
      then (''BAD'', 85, ''discard'',
            [''Store in cool, dry place'', ''Check fruits regularly'',
             ''Remove damaged fruits immediately''])
      else if any_keyword_in [''insect'', ''holes'', ''bite marks'', ''pest damage'',
                              ''chewed'', ''puncture''] text_lower
      then (''INSECT_DAMAGED'', 80, ''remove from batch'',
            [''Use mesh covers'', ''Regular inspection'', ''Natural pest repellents''])
      else if any_keyword_in [''excellent'', ''perfect'', ''pristine'', ''optimal''] text_lower
      then (''EXCELLENT'', 90, ''consume at leisure'',
            [''Continue current storage'', ''Maintain temperature''])
      else if any_keyword_in [''good condition'', ''fresh'', ''healthy'', ''quality''] text_lower
      then (''GOOD'', 85, ''consume normally'',
            [''Monitor regularly'', ''Proper ventilation''])
      else if any_keyword_in [''fair'', ''moderate'', ''declining'', ''some defects''] text_lower
      then (''FAIR'', 70, ''use within days'',
            [''Improve storage conditions'', ''Use sooner''])
      else (''POOR'', 60, ''consume immediately'',
            [''Better selection at purchase'', ''Improved storage'']))"

definition goodUI_create_fallback_analysis :: "string \<Rightarrow> gemini_analysis" where
  "goodUI_create_fallback_analysis response_text =
     (let text_lower = lower response_text;
          (cond, conf, action, prevention) = goodUI_classify text_lower
      in \<lparr>fruit_type = Some ''unknown'',
          condition_category = Some cond,
          confidence_score = Some conf,
          detailed_analysis = Some response_text,
          defects_found = Some [],
          ripeness = Some ''unknown'',
          ai_freshness_score = Some conf,
          recommendations = Some ''Based on AI analysis'',
          key_observations = Some [take 100 response_text @ ''...''],
          safety_assessment = Some ''questionable'',
          prevention_tips = Some prevention,
          storage_advice = Some ''Store properly'',
          action_required = Some action\<rparr>)"

text \<open>
  The branches of the \<open>if\<close>/\<open>elif\<close> chain of the variant \<open>goodUI\<close> as a table, in the order
  of the source: category, keywords, confidence, action and prevention tips. The final
  \<open>else\<close> is \<open>goodUI_default\<close>.
\<close>

definition goodUI_categories ::
  "(string \<times> string list \<times> real \<times> string \<times> string list) list" where
  "goodUI_categories =
     [(''BAD'',
       [''rotten'', ''spoiled'', ''moldy'', ''severely damaged'', ''bad condition'', ''unsafe'',
        ''decay''],
       85, ''discard'',
       [''Store in cool, dry place'', ''Check fruits regularly'',
        ''Remove damaged fruits immediately'']),
      (''INSECT_DAMAGED'',
       [''insect'', ''holes'', ''bite marks'', ''pest damage'', ''chewed'', ''puncture''],
       80, ''remove from batch'',
       [''Use mesh covers'', ''Regular inspection'', ''Natural pest repellents'']),
      (''EXCELLENT'',
       [''excellent'', ''perfect'', ''pristine'', ''optimal''],
       90, ''consume at leisure'',
       [''Continue current storage'', ''Maintain temperature'']),
      (''GOOD'',
       [''good condition'', ''fresh'', ''healthy'', ''quality''],
       85, ''consume normally'',
       [''Monitor regularly'', ''Proper ventilation'']),
      (''FAIR'',
       [''fair'', ''moderate'', ''declining'', ''some defects''],
       70, ''use within days'',
       [''Improve storage conditions'', ''Use sooner''])]"

definition goodUI_default :: "string \<times> real \<times> string \<times> string list" where
  "goodUI_default =
     (''POOR'', 60, ''consume immediately'',
      [''Better selection at purchase'', ''Improved storage''])"

section \<open>Example inputs\<close>

text \<open>A remote verdict and a set of local metrics, used to run the functions on concrete inputs.\<close>

definition example_verdict :: "string \<Rightarrow> real \<Rightarrow> gemini_analysis" where
  "example_verdict category score =
     \<lparr>fruit_type = Some ''apple'',
      condition_category = Some category,
      confidence_score = Some score,
      detailed_analysis = Some ''Red apple, photographed from above.'',
      defects_found = Some [],
      ripeness = Some ''ripe'',
      ai_freshness_score = Some 80,
      recommendations = None,
      key_observations = None,
      safety_assessment = Some ''safe'',
      prevention_tips = None,
      storage_advice = None,
      action_required = None\<rparr>"

definition example_metrics :: "real \<Rightarrow> real \<Rightarrow> real \<Rightarrow> local_analysis" where
  "example_metrics brown black fresh =
     \<lparr>brown_rot_percentage = brown,
      black_spots_percentage = black,
      color_variance = 12.5,
      texture_score = 40,
      shape_integrity = 50,
      freshness_score = fresh\<rparr>"


section \<open>Images and the OpenCV boundary\<close>

text \<open>
  An image is a list of rows; a colour pixel has three \<open>uint8\<close> channels (values 0..255),
  in the channel order of its colour space. A mask is an image whose pixels are 0 or 255,
  written \<open>False\<close> and \<open>True\<close>. A contour is a list of points \<open>(x, y)\<close>.
\<close>

type_synonym pixel = "nat \<times> nat \<times> nat"
type_synonym image = "pixel list list"
type_synonym gray_image = "nat list list"
type_synonym mask = "bool list list"
type_synonym float_image = "real list list"
type_synonym contour = "(int \<times> int) list"

datatype py_error = ZeroDivisionError | ValueError

definition py_truediv :: "real \<Rightarrow> real \<Rightarrow> py_error + real" where
  "py_truediv a b = (if b = 0 then Inl ZeroDivisionError else Inr (a / b))"

definition bind_err :: "py_error + 'a \<Rightarrow> ('a \<Rightarrow> py_error + 'b) \<Rightarrow> py_error + 'b" where
  "bind_err m f = (case m of Inl e \<Rightarrow> Inl e | Inr x \<Rightarrow> f x)"

text \<open>
  The calls into OpenCV whose algorithms are not part of the repository. They are
  parameters of the model: each field stands for one call of the source with the
  arguments the source passes (\<open>findContours\<close> with \<open>RETR_EXTERNAL\<close> and
  \<open>CHAIN_APPROX_SIMPLE\<close>, \<open>Canny\<close> with thresholds 50 and 150, and so on).
  \<open>drawContours c i j\<close> tells whether \<open>cv2.drawContours(m, [c], -1, 255, -1)\<close> paints the
  pixel in row \<open>i\<close> and column \<open>j\<close>.
\<close>

record cv2 =
  cvtColor_BGR2HSV :: "image \<Rightarrow> image"
  cvtColor_BGR2LAB :: "image \<Rightarrow> image"
  cvtColor_BGR2GRAY :: "image \<Rightarrow> gray_image"
  GaussianBlur :: "gray_image \<Rightarrow> gray_image"
  adaptiveThreshold :: "gray_image \<Rightarrow> mask"
  findContours :: "mask \<Rightarrow> contour list"
  convexHull :: "contour \<Rightarrow> contour"
  drawContours :: "contour \<Rightarrow> nat \<Rightarrow> nat \<Rightarrow> bool"
  Canny :: "gray_image \<Rightarrow> mask"
  Laplacian :: "gray_image \<Rightarrow> float_image"
  Sobel_x :: "gray_image \<Rightarrow> float_image"
  Sobel_y :: "gray_image \<Rightarrow> float_image"
  filter2D :: "gray_image \<Rightarrow> float_image"
  addWeighted :: "image \<Rightarrow> real \<Rightarrow> image \<Rightarrow> real \<Rightarrow> real \<Rightarrow> image"

subsection \<open>Array operations with a fixed meaning\<close>

definition shape0 :: "'a list list \<Rightarrow> nat" where
  "shape0 a = length a"

definition shape1 :: "'a list list \<Rightarrow> nat" where
  "shape1 a = (case a of [] \<Rightarrow> 0 | row # _ \<Rightarrow> length row)"

definition size_of :: "'a list list \<Rightarrow> nat" where
  "size_of a = length (concat a)"

definition rectangular :: "'a list list \<Rightarrow> bool" where
  "rectangular a = list_all (\<lambda>row. length row = shape1 a) a"

definition same_shape :: "'a list list \<Rightarrow> 'b list list \<Rightarrow> bool" where
  "same_shape a b = (map length a = map length b)"

definition countNonZero :: "mask \<Rightarrow> nat" where
  "countNonZero m = length (filter (\<lambda>b. b) (concat m))"

definition inRange :: "image \<Rightarrow> pixel \<Rightarrow> pixel \<Rightarrow> mask" where
  "inRange img lowerb upperb =
     map (map (\<lambda>(c0, c1, c2).
       (case lowerb of (l0, l1, l2) \<Rightarrow>
        case upperb of (u0, u1, u2) \<Rightarrow>
          l0 \<le> c0 \<and> c0 \<le> u0 \<and> l1 \<le> c1 \<and> c1 \<le> u1 \<and> l2 \<le> c2 \<and> c2 \<le> u2))) img"

text \<open>\<open>cv2.threshold(src, thresh, 255, THRESH_BINARY_INV)\<close>: 0 where \<open>src > thresh\<close>, else 255.\<close>

definition threshold_binary_inv :: "gray_image \<Rightarrow> nat \<Rightarrow> mask" where
  "threshold_binary_inv src thresh = map (map (\<lambda>v. \<not> v > thresh)) src"

definition bitwise_or :: "mask \<Rightarrow> mask \<Rightarrow> mask" where
  "bitwise_or a b = map2 (map2 (\<or>)) a b"

definition bitwise_and :: "mask \<Rightarrow> mask \<Rightarrow> mask" where
  "bitwise_and a b = map2 (map2 (\<and>)) a b"

text \<open>
  Morphology. A structuring element is the list of the offsets \<open>(row, column)\<close> of its
  non-zero entries from its centre; \<open>getStructuringElement(MORPH_ELLIPSE, (3, 3))\<close> is the
  cross and \<open>getStructuringElement(MORPH_ELLIPSE, (5, 5))\<close> the 5x5 square without its four
  corners and their neighbours on the first and last row. Pixels outside the image do not
  constrain an erosion and do not feed a dilation (the default border of
  \<open>morphologyEx\<close>).
\<close>

definition ellipse_3x3 :: "(int \<times> int) list" where
  "ellipse_3x3 = [(-1, 0), (0, -1), (0, 0), (0, 1), (1, 0)]"

definition ellipse_5x5 :: "(int \<times> int) list" where
  "ellipse_5x5 =
     [(-2, 0),
      (-1, -2), (-1, -1), (-1, 0), (-1, 1), (-1, 2),
      (0, -2), (0, -1), (0, 0), (0, 1), (0, 2),
      (1, -2), (1, -1), (1, 0), (1, 1), (1, 2),
      (2, 0)]"

definition mask_at :: "mask \<Rightarrow> int \<Rightarrow> int \<Rightarrow> bool option" where
  "mask_at m i j =
     (if 0 \<le> i \<and> i < int (length m)
      then (let row = m ! nat i
            in if 0 \<le> j \<and> j < int (length row) then Some (row ! nat j) else None)
      else None)"

definition erode :: "(int \<times> int) list \<Rightarrow> mask \<Rightarrow> mask" where
  "erode selem m =
     map (\<lambda>i. map (\<lambda>j. list_all (\<lambda>(di, dj).
                 (case mask_at m (int i + di) (int j + dj) of None \<Rightarrow> True | Some b \<Rightarrow> b))
               selem)
            [0..<length (m ! i)])
         [0..<length m]"

definition dilate :: "(int \<times> int) list \<Rightarrow> mask \<Rightarrow> mask" where
  "dilate selem m =
     map (\<lambda>i. map (\<lambda>j. list_ex (\<lambda>(di, dj).
                 (case mask_at m (int i + di) (int j + dj) of None \<Rightarrow> False | Some b \<Rightarrow> b))
               selem)
            [0..<length (m ! i)])
         [0..<length m]"

definition morph_open :: "(int \<times> int) list \<Rightarrow> mask \<Rightarrow> mask" where
  "morph_open selem m = dilate selem (erode selem m)"

definition morph_close :: "(int \<times> int) list \<Rightarrow> mask \<Rightarrow> mask" where
  "morph_close selem m = erode selem (dilate selem m)"

text \<open>\<open>np.mean\<close>, \<open>np.var\<close> and \<open>np.std\<close> of the elements of an array.\<close>

definition np_mean :: "real list \<Rightarrow> real" where
  "np_mean xs = sum_list xs / real (length xs)"

definition np_var :: "real list \<Rightarrow> real" where
  "np_var xs = np_mean (map (\<lambda>x. (x - np_mean xs)\<^sup>2) xs)"

definition np_std :: "real list \<Rightarrow> real" where
  "np_std xs = sqrt (np_var xs)"

definition channel0 :: "image \<Rightarrow> real list" where
  "channel0 img = map (\<lambda>(c0, c1, c2). real c0) (concat img)"

definition channel1 :: "image \<Rightarrow> real list" where
  "channel1 img = map (\<lambda>(c0, c1, c2). real c1) (concat img)"

definition channel2 :: "image \<Rightarrow> real list" where
  "channel2 img = map (\<lambda>(c0, c1, c2). real c2) (concat img)"

text \<open>
  \<open>cv2.contourArea\<close> (Green's formula on the closed polygon, absolute value) and
  \<open>cv2.arcLength(c, True)\<close> (the length of the closed polygon).
\<close>

definition closing_pairs :: "contour \<Rightarrow> ((int \<times> int) \<times> (int \<times> int)) list" where
  "closing_pairs c = (case c of [] \<Rightarrow> [] | p # ps \<Rightarrow> zip c (ps @ [p]))"

definition contourArea :: "contour \<Rightarrow> real" where
  "contourArea c =
     \<bar>real_of_int (sum_list (map (\<lambda>((x1, y1), (x2, y2)). x1 * y2 - x2 * y1) (closing_pairs c)))\<bar> / 2"

definition arcLength :: "contour \<Rightarrow> real" where
  "arcLength c =
     sum_list (map (\<lambda>((x1, y1), (x2, y2)). sqrt (real_of_int ((x2 - x1)\<^sup>2 + (y2 - y1)\<^sup>2)))
                   (closing_pairs c))"

text \<open>\<open>max(xs, key=f)\<close>: the first element with the largest key; \<open>ValueError\<close> on \<open>[]\<close>.\<close>

fun max_by :: "('a \<Rightarrow> real) \<Rightarrow> 'a \<Rightarrow> 'a list \<Rightarrow> 'a" where
  "max_by key best [] = best"
| "max_by key best (x # xs) = max_by key (if key x > key best then x else best) xs"

definition py_max_by :: "('a \<Rightarrow> real) \<Rightarrow> 'a list \<Rightarrow> py_error + 'a" where
  "py_max_by key xs = (case xs of [] \<Rightarrow> Inl ValueError | x # rest \<Rightarrow> Inr (max_by key x rest))"

section \<open>The detectors\<close>

text \<open>The share of a mask in the pixels of the analysed image, in percent, two decimals.\<close>

definition mask_percentage :: "mask \<Rightarrow> image \<Rightarrow> py_error + real" where
  "mask_percentage m hsv_image =
     (let total_pixels = shape0 hsv_image * shape1 hsv_image;
          pixels = countNonZero m
      in bind_err (py_truediv (real pixels) (real total_pixels))
           (\<lambda>ratio. Inr (py_round (ratio * 100) 2)))"

definition brown_mask_hsv :: "image \<Rightarrow> mask" where
  "brown_mask_hsv hsv_image = inRange hsv_image (8, 50, 20) (20, 255, 200)"

definition brown_mask_lab :: "image \<Rightarrow> mask" where
  "brown_mask_lab lab_image =
     map (map (\<lambda>(l, a, b). l < 150 \<and> (a > 5 \<and> a < 30) \<and> (b > 10 \<and> b < 40))) lab_image"

definition brown_rot_mask :: "image \<Rightarrow> image \<Rightarrow> mask" where
  "brown_rot_mask hsv_image lab_image =
     (let combined_mask = bitwise_or (brown_mask_hsv hsv_image) (brown_mask_lab lab_image);
          selem = ellipse_5x5;
          opened = morph_open selem combined_mask
      in morph_close selem opened)"

definition detect_brown_rot_enhanced :: "image \<Rightarrow> image \<Rightarrow> py_error + real" where
  "detect_brown_rot_enhanced hsv_image lab_image =
     mask_percentage (brown_rot_mask hsv_image lab_image) hsv_image"

definition black_mask_hsv :: "image \<Rightarrow> mask" where
  "black_mask_hsv hsv_image = inRange hsv_image (0, 0, 0) (180, 255, 50)"

definition black_mask_gray :: "gray_image \<Rightarrow> mask" where
  "black_mask_gray gray_image = threshold_binary_inv gray_image 30"

definition black_combined_mask :: "image \<Rightarrow> gray_image \<Rightarrow> mask" where
  "black_combined_mask hsv_image gray_image =
     morph_open ellipse_3x3
       (bitwise_and (black_mask_hsv hsv_image) (black_mask_gray gray_image))"

definition black_spots_mask :: "cv2 \<Rightarrow> image \<Rightarrow> gray_image \<Rightarrow> mask" where
  "black_spots_mask cv hsv_image gray_image =
     (let combined_mask = black_combined_mask hsv_image gray_image;
          contours = findContours cv combined_mask;
          significant = filter (\<lambda>contour. contourArea contour > 20) contours
      in map (\<lambda>i. map (\<lambda>j. list_ex (\<lambda>contour. drawContours cv contour i j) significant)
                    [0..<length (combined_mask ! i)])
             [0..<length combined_mask])"

definition detect_black_spots_enhanced :: "cv2 \<Rightarrow> image \<Rightarrow> gray_image \<Rightarrow> py_error + real" where
  "detect_black_spots_enhanced cv hsv_image gray_image =
     mask_percentage (black_spots_mask cv hsv_image gray_image) hsv_image"

definition analyze_color_uniformity :: "cv2 \<Rightarrow> image \<Rightarrow> real" where
  "analyze_color_uniformity cv img =
     (let lab = cvtColor_BGR2LAB cv img;
          l_std = np_std (channel0 lab);
          a_std = np_std (channel1 lab);
          b_std = np_std (channel2 lab);
          color_variance = l_std * 0.5 + a_std * 0.25 + b_std * 0.25
      in py_round color_variance 2)"

definition analyze_texture_quality :: "cv2 \<Rightarrow> image \<Rightarrow> real" where
  "analyze_texture_quality cv img =
     (let gray = cvtColor_BGR2GRAY cv img;
          laplacian = Laplacian cv gray;
          texture_score1 = np_var (concat laplacian);
          grad_x = Sobel_x cv gray;
          grad_y = Sobel_y cv gray;
          magnitude = map2 (\<lambda>gx gy. sqrt (gx\<^sup>2 + gy\<^sup>2)) (concat grad_x) (concat grad_y);
          texture_score2 = np_mean magnitude;
          texture_response = filter2D cv gray;
          texture_score3 = np_mean (map abs (concat texture_response));
          texture_score = texture_score1 * 0.3 + texture_score2 * 0.3 + texture_score3 * 0.4
      in py_round (min 100 texture_score) 2)"

definition shape_contours :: "cv2 \<Rightarrow> image \<Rightarrow> contour list" where
  "shape_contours cv img =
     (let gray = cvtColor_BGR2GRAY cv img;
          blurred = GaussianBlur cv gray;
          edges = adaptiveThreshold cv blurred
      in findContours cv edges)"

definition analyze_fruit_shape :: "cv2 \<Rightarrow> image \<Rightarrow> py_error + real" where
  "analyze_fruit_shape cv img =
     (let contours = shape_contours cv img
      in if contours \<noteq> []
         then bind_err (py_max_by contourArea contours) (\<lambda>largest_contour.
           let area = contourArea largest_contour;
               perimeter = arcLength largest_contour
           in if perimeter > 0
              then bind_err (py_truediv (4 * pi * area) (perimeter * perimeter)) (\<lambda>circularity.
                let hull_points = convexHull cv largest_contour;
                    hull_area = contourArea hull_points
                in bind_err (if hull_area > 0 then py_truediv area hull_area else Inr 0)
                     (\<lambda>convexity.
                       let shape_score = (circularity * 0.6 + convexity * 0.4) * 100
                       in Inr (min 100 (py_round shape_score 2))))
              else Inr 50)
         else Inr 50)"

definition calculate_freshness_score_enhanced ::
  "cv2 \<Rightarrow> image \<Rightarrow> image \<Rightarrow> image \<Rightarrow> py_error + real" where
  "calculate_freshness_score_enhanced cv hsv_image lab_image bgr_image =
     (let brightness = np_mean (channel0 lab_image);
          brightness_score = min 100 ((brightness / 255) * 120);
          saturation = np_mean (channel1 hsv_image);
          saturation_score = min 100 ((saturation / 255) * 110);
          color_vibrancy = np_std (channel2 bgr_image) + np_std (channel1 bgr_image)
                             + np_std (channel0 bgr_image);
          vibrancy_score = min 100 (color_vibrancy * 0.7);
          gray = cvtColor_BGR2GRAY cv bgr_image;
          edges = Canny cv gray
      in bind_err (py_truediv (real (countNonZero edges)) (real (size_of edges)))
           (\<lambda>ratio.
             let edge_density = ratio * 100;
                 sharpness_score = min 100 (edge_density * 10);
                 freshness = brightness_score * 0.25 + saturation_score * 0.35
                               + vibrancy_score * 0.25 + sharpness_score * 0.15
             in Inr (py_round freshness 2)))"

definition perform_local_analysis :: "cv2 \<Rightarrow> image \<Rightarrow> py_error + local_analysis" where
  "perform_local_analysis cv img =
     (let hsv = cvtColor_BGR2HSV cv img;
          lab = cvtColor_BGR2LAB cv img;
          gray = cvtColor_BGR2GRAY cv img
      in bind_err (detect_brown_rot_enhanced hsv lab) (\<lambda>brown_rot_analysis.
         bind_err (detect_black_spots_enhanced cv hsv gray) (\<lambda>black_spot_analysis.
         let color_var = analyze_color_uniformity cv img;
             texture_analysis = analyze_texture_quality cv img
         in bind_err (analyze_fruit_shape cv img) (\<lambda>contour_analysis.
            bind_err (calculate_freshness_score_enhanced cv hsv lab img) (\<lambda>fresh.
              Inr \<lparr>brown_rot_percentage = brown_rot_analysis,
                   black_spots_percentage = black_spot_analysis,
                   color_variance = color_var,
                   texture_score = texture_analysis,
                   shape_integrity = contour_analysis,
                   freshness_score = fresh\<rparr>)))))"

section \<open>The overlay renderer (\<open>create_enhanced_analysis_overlay\<close>)\<close>






section \<open>Order on masks\<close>

text \<open>\<open>mask_le a b\<close>: the masks have the same shape and every pixel set in \<open>a\<close> is set in \<open>b\<close>.\<close>

definition mask_le :: "mask \<Rightarrow> mask \<Rightarrow> bool" where
  "mask_le a b = list_all2 (list_all2 (\<lambda>x y. x \<longrightarrow> y)) a b"

section \<open>Valid inputs\<close>

text \<open>
  A valid image has a non-zero area, every row of the same length. OpenCV returns views
  and edge maps of the shape of its input; \<open>shape_contract\<close> says so for the two arrays whose
  size the analysis divides by.
\<close>

definition valid_image :: "image \<Rightarrow> bool" where
  "valid_image img = (rectangular img \<and> 0 < shape0 img \<and> 0 < shape1 img)"

definition shape_contract :: "cv2 \<Rightarrow> image \<Rightarrow> bool" where
  "shape_contract cv img =
     (same_shape (cvtColor_BGR2HSV cv img) img
      \<and> same_shape (Canny cv (cvtColor_BGR2GRAY cv img)) img)"

section \<open>An example image\<close>




text \<open>
  A 4x6 image: a 2x4 block of the same orange-brown colour on white. Its outline is the
  rectangle with corners (1, 1) and (4, 2), of area 3 and perimeter 8.
\<close>

definition block_bgr :: image where
  "block_bgr =
     [[(255, 255, 255), (255, 255, 255), (255, 255, 255), (255, 255, 255), (255, 255, 255), (255, 255, 255)],
      [(255, 255, 255), (50, 100, 200), (50, 100, 200), (50, 100, 200), (50, 100, 200), (255, 255, 255)],
      [(255, 255, 255), (50, 100, 200), (50, 100, 200), (50, 100, 200), (50, 100, 200), (255, 255, 255)],
      [(255, 255, 255), (255, 255, 255), (255, 255, 255), (255, 255, 255), (255, 255, 255), (255, 255, 255)]]"

definition block_outline :: contour where
  "block_outline = [(1, 1), (1, 2), (4, 2), (4, 1)]"

text \<open>
  A stand-in for OpenCV on the two example images: the colour conversions of their two
  colours, a threshold in place of the edge detectors, the outline of the block as the
  only contour, and the rounded, saturated weighted sum for \<open>addWeighted\<close>.
\<close>

definition example_hsv_of :: "pixel \<Rightarrow> pixel" where
  "example_hsv_of p = (if p = (50, 100, 200) then (10, 191, 200) else (0, 0, 255))"

definition example_lab_of :: "pixel \<Rightarrow> pixel" where
  "example_lab_of p = (if p = (50, 100, 200) then (137, 164, 173) else (255, 128, 128))"

definition example_gray_of :: "pixel \<Rightarrow> nat" where
  "example_gray_of p = (if p = (50, 100, 200) then 124 else 255)"

definition example_blend :: "real \<Rightarrow> real \<Rightarrow> real \<Rightarrow> nat \<Rightarrow> nat \<Rightarrow> nat" where
  "example_blend alpha beta gamma a b =
     nat (min 255 (max 0 (round_half_even (alpha * real a + beta * real b + gamma))))"

definition example_cv2 :: cv2 where
  "example_cv2 =
     \<lparr>cvtColor_BGR2HSV = map (map example_hsv_of),
      cvtColor_BGR2LAB = map (map example_lab_of),
      cvtColor_BGR2GRAY = map (map example_gray_of),
      GaussianBlur = (\<lambda>gray. gray),
      adaptiveThreshold = map (map (\<lambda>v. v < 200)),
      findContours = (\<lambda>m. if countNonZero m = 0 then [] else [block_outline]),
      convexHull = (\<lambda>c. c),
      drawContours = (\<lambda>c i j. 1 \<le> i \<and> i \<le> 2 \<and> 1 \<le> j \<and> j \<le> 4),
      Canny = map (map (\<lambda>v. v < 200)),
      Laplacian = map (map (\<lambda>v. 255 - real v)),
      Sobel_x = map (map (\<lambda>v. 255 - real v)),
      Sobel_y = map (map (\<lambda>v. 0)),
      filter2D = map (map (\<lambda>v. 255 - real v)),
      addWeighted = (\<lambda>src1 alpha src2 beta gamma.
        map2 (map2 (\<lambda>(a0, a1, a2) (b0, b1, b2).
          (example_blend alpha beta gamma a0 b0,
           example_blend alpha beta gamma a1 b1,
           example_blend alpha beta gamma a2 b2))) src1 src2)\<rparr>"

section \<open>Facts about rounding\<close>

lemma round_half_even_of_int: "round_half_even (of_int k) = k"
  by (simp add: round_half_even_def)

lemma round_half_even_lower: "x - 1 / 2 \<le> of_int (round_half_even x)"
  unfolding round_half_even_def Let_def by (auto; linarith)

lemma round_half_even_upper: "of_int (round_half_even x) \<le> x + 1 / 2"
  unfolding round_half_even_def Let_def by (auto; linarith)

lemma round_half_even_mono: "x \<le> y \<Longrightarrow> round_half_even x \<le> round_half_even y"
proof -
  assume xy: "x \<le> y"
  have fl: "\<lfloor>x\<rfloor> \<le> \<lfloor>y\<rfloor>" using xy by (rule floor_mono)
  show ?thesis
  proof (cases "\<lfloor>x\<rfloor> = \<lfloor>y\<rfloor>")
    case True
    then show ?thesis using xy unfolding round_half_even_def Let_def by (auto; linarith)
  next
    case False
    then have lt: "\<lfloor>x\<rfloor> + 1 \<le> \<lfloor>y\<rfloor>" using fl by linarith
    have a: "round_half_even x \<le> \<lfloor>x\<rfloor> + 1" unfolding round_half_even_def Let_def by auto
    have b: "\<lfloor>y\<rfloor> \<le> round_half_even y" unfolding round_half_even_def Let_def by auto
    show ?thesis using a b lt by linarith
  qed
qed

lemma py_round_mono: "x \<le> y \<Longrightarrow> py_round x n \<le> py_round y n"
  unfolding py_round_def
  by (intro divide_right_mono) (auto intro!: round_half_even_mono mult_right_mono)

lemma py_round_fixed: "py_round (of_int k / 10 ^ n) n = of_int k / 10 ^ n"
  unfolding py_round_def by (simp add: round_half_even_of_int)

lemma py_round_int [simp]: "py_round (of_int k) n = of_int k"
proof -
  have "py_round (of_int (k * 10 ^ n) / 10 ^ n) n = of_int (k * 10 ^ n) / 10 ^ n"
    by (rule py_round_fixed)
  then show ?thesis by simp
qed

lemma py_round_numeral [simp]: "py_round (numeral k) n = numeral k"
  using py_round_int [of "numeral k" n] by simp

lemma py_round_zero [simp]: "py_round 0 n = 0"
  using py_round_int [of 0 n] by simp

lemma py_round_upper: "py_round x n \<le> x + 1 / (2 * 10 ^ n)"
proof -
  have "of_int (round_half_even (x * 10 ^ n)) \<le> x * 10 ^ n + 1 / 2"
    by (rule round_half_even_upper)
  then have "of_int (round_half_even (x * 10 ^ n)) / 10 ^ n \<le> (x * 10 ^ n + 1 / 2) / 10 ^ n"
    by (intro divide_right_mono) auto
  then show ?thesis unfolding py_round_def by (simp add: field_simps)
qed

lemma py_round_lower: "x - 1 / (2 * 10 ^ n) \<le> py_round x n"
proof -
  have "x * 10 ^ n - 1 / 2 \<le> of_int (round_half_even (x * 10 ^ n))"
    by (rule round_half_even_lower)
  then have "(x * 10 ^ n - 1 / 2) / 10 ^ n \<le> of_int (round_half_even (x * 10 ^ n)) / 10 ^ n"
    by (intro divide_right_mono) auto
  then show ?thesis unfolding py_round_def by (simp add: field_simps)
qed

lemma py_round_le_numeral: "x \<le> numeral k \<Longrightarrow> py_round x n \<le> numeral k"
  using py_round_mono [of x "numeral k" n] by simp

lemma py_round_ge_numeral: "numeral k \<le> x \<Longrightarrow> numeral k \<le> py_round x n"
  using py_round_mono [of "numeral k" x n] by simp

lemma py_round_nonneg: "0 \<le> x \<Longrightarrow> 0 \<le> py_round x n"
  using py_round_mono [of 0 x n] by simp

section \<open>The fusion rules\<close>

text \<open>
  Claim C1 (conflict rule), as the code has it. With \<open>brown_rot_percentage = 30\<close>, any
  \<open>black_spots_percentage \<ge> 0\<close> and a remote verdict \<open>EXCELLENT\<close> of raw confidence \<open>c\<close>, the
  fused condition is the synthetic conflict label and the fused confidence is
  \<open>max (c - 15) 50\<close> rounded to one decimal. It is strictly below \<open>c\<close> when \<open>c > 50\<close>; for
  \<open>c \<le> 50\<close> the floor makes it exactly 50, which is not below \<open>c\<close>.
\<close>

theorem conflict_rule:
  assumes "brown_rot_percentage la = 30"
    and "0 \<le> black_spots_percentage la"
    and "condition_category g = Some ''EXCELLENT''"
    and "confidence_score g = Some c"
  shows "condition (combine_analysis_results (Some g) la) = CONFLICTING_LABEL
       \<and> confidence (combine_analysis_results (Some g) la) = py_round (max (c - 15) 50) 1
       \<and> (50 < c \<longrightarrow> confidence (combine_analysis_results (Some g) la) < c)
       \<and> (c \<le> 50 \<longrightarrow> confidence (combine_analysis_results (Some g) la) = 50)"
proof -
  have score: "brown_rot_percentage la * 2.5 + black_spots_percentage la * 3.5 > 20"
    using assms(1,2) by simp
  have res: "combine_analysis_results (Some g) la =
      \<lparr>condition = CONFLICTING_LABEL, confidence = py_round (max (c - 15) 50) 1,
       description = get_or (detailed_analysis g) ''AI analysis completed'',
       color = ''#ff6347''\<rparr>"
    using score assms(3,4) by (simp add: combine_analysis_results_def get_or_def Let_def)
  have below: "py_round (max (c - 15) 50) 1 < c" if "50 < c"
  proof (cases "c \<le> 65")
    case True
    then have "max (c - 15) 50 = 50" by simp
    then show ?thesis using that by simp
  next
    case False
    then have "max (c - 15) 50 = c - 15" by simp
    moreover have "py_round (c - 15) 1 \<le> (c - 15) + 1 / (2 * 10 ^ 1)" by (rule py_round_upper)
    ultimately show ?thesis by simp
  qed
  have floor: "py_round (max (c - 15) 50) 1 = 50" if "c \<le> 50"
  proof -
    have "max (c - 15) 50 = 50" using that by simp
    then show ?thesis by simp
  qed
  show ?thesis using res below floor by simp
qed

text \<open>The rule at a verdict of confidence 90.\<close>

theorem conflict_rule_witness:
  "condition (combine_analysis_results (Some (example_verdict ''EXCELLENT'' 90))
      (example_metrics 30 2 80)) = CONFLICTING_LABEL
   \<and> confidence (combine_analysis_results (Some (example_verdict ''EXCELLENT'' 90))
      (example_metrics 30 2 80)) < 90"
  using conflict_rule [of "example_metrics 30 2 80" "example_verdict ''EXCELLENT'' 90" 90]
  by (simp add: example_metrics_def example_verdict_def)

text \<open>
  At a raw confidence of 40 the fused confidence is the floor 50: it is not below the raw
  confidence.
\<close>

theorem conflict_rule_counterexample:
  "\<not> confidence (combine_analysis_results (Some (example_verdict ''EXCELLENT'' 40))
        (example_metrics 30 0 80)) < 40"
  by (simp add: combine_analysis_results_def example_metrics_def example_verdict_def
      get_or_def Let_def)

text \<open>
  Claim C2 (agreement rule), as the code has it. With a remote verdict \<open>GOOD\<close> of raw
  confidence \<open>c\<close> and a local badness score that does not reach the conflict threshold
  (in particular with both defect percentages near 0), \<open>combine_analysis_results\<close> returns
  \<open>min (c + 5) 95\<close> rounded to one decimal, which is at least \<open>min c 95\<close> and at most 95;
  the variant \<open>goodUI\<close> returns the raw confidence rounded to one decimal, with no boost and
  no cap.
\<close>

theorem agreement_rule:
  assumes "condition_category g = Some ''GOOD''"
    and "confidence_score g = Some c"
  shows "(brown_rot_percentage la * 2.5 + black_spots_percentage la * 3.5 \<le> 20 \<longrightarrow>
            confidence (combine_analysis_results (Some g) la) = py_round (min (c + 5) 95) 1
          \<and> min c 95 \<le> confidence (combine_analysis_results (Some g) la)
          \<and> confidence (combine_analysis_results (Some g) la) \<le> 95)
       \<and> (brown_rot_percentage la * 2 + black_spots_percentage la * 3 \<le> 15 \<longrightarrow>
            confidence (goodUI_combine_analysis_results (Some g) la) = py_round c 1)"
proof -
  have lo: "min c 95 \<le> py_round (min (c + 5) 95) 1"
  proof (cases "c + 5 \<le> 95")
    case True
    have "(c + 5) - 1 / (2 * 10 ^ 1) \<le> py_round (c + 5) 1" by (rule py_round_lower)
    then show ?thesis using True by simp
  next
    case False
    then have "min (c + 5) 95 = 95" by simp
    then show ?thesis by simp
  qed
  have hi: "py_round (min (c + 5) 95) 1 \<le> 95"
    by (rule py_round_le_numeral) simp
  show ?thesis using assms lo hi
    by (simp add: combine_analysis_results_def goodUI_combine_analysis_results_def
        make_final_decision_gemini_priority_def get_or_def Let_def)
qed

text \<open>Both variants at a verdict \<open>GOOD\<close> of confidence 80.\<close>

theorem agreement_rule_witness:
  "min 80 95 \<le> confidence (combine_analysis_results (Some (example_verdict ''GOOD'' 80))
      (example_metrics 0.5 0 80))
   \<and> confidence (combine_analysis_results (Some (example_verdict ''GOOD'' 80))
      (example_metrics 0.5 0 80)) \<le> 95
   \<and> confidence (goodUI_combine_analysis_results (Some (example_verdict ''GOOD'' 80))
      (example_metrics 0.5 0 80)) = 80"
  using agreement_rule [of "example_verdict ''GOOD'' 80" 80 "example_metrics 0.5 0 80"]
  by (simp add: example_metrics_def example_verdict_def)

text \<open>
  In the variant \<open>goodUI\<close> a verdict \<open>GOOD\<close> of confidence 100 on a clean image keeps the
  confidence 100: it is not capped at 95.
\<close>

theorem agreement_rule_counterexample:
  "\<not> confidence (goodUI_combine_analysis_results (Some (example_verdict ''GOOD'' 100))
        (example_metrics 0 0 80)) \<le> 95"
  by (simp add: goodUI_combine_analysis_results_def make_final_decision_gemini_priority_def
      example_metrics_def example_verdict_def get_or_def Let_def)

text \<open>
  Claim C3 (negative verdict on a clean image), as the code has it. With a local badness
  score below 5 and a remote verdict \<open>BAD\<close> or \<open>POOR\<close> of raw confidence \<open>c\<close>, the fused
  condition is the display label of the remote category, unchanged, and the fused
  confidence is \<open>max (c - 10) 60\<close> rounded to one decimal. It does not exceed \<open>c\<close> when
  \<open>c \<ge> 60\<close>; for \<open>c < 60\<close> the floor raises it to 60.
\<close>

theorem negative_verdict_rule:
  assumes "brown_rot_percentage la * 2.5 + black_spots_percentage la * 3.5 < 5"
    and "category = ''BAD'' \<or> category = ''POOR''"
    and "condition_category g = Some category"
    and "confidence_score g = Some c"
  shows "condition (combine_analysis_results (Some g) la)
           = (if category = ''BAD'' then BAD_LABEL else POOR_LABEL)
       \<and> confidence (combine_analysis_results (Some g) la) = py_round (max (c - 10) 60) 1
       \<and> (60 \<le> c \<longrightarrow> confidence (combine_analysis_results (Some g) la) \<le> c)
       \<and> (c < 60 \<longrightarrow> confidence (combine_analysis_results (Some g) la) = 60)"
proof -
  have not_pos: "\<not> (brown_rot_percentage la * 2.5 + black_spots_percentage la * 3.5 > 20)"
    using assms(1) by simp
  have cond: "condition (combine_analysis_results (Some g) la)
           = (if category = ''BAD'' then BAD_LABEL else POOR_LABEL)"
    using assms not_pos
    by (auto simp add: combine_analysis_results_def get_or_def Let_def dict_get_def
        condition_mapping_def)
  have conf: "confidence (combine_analysis_results (Some g) la) = py_round (max (c - 10) 60) 1"
    using assms not_pos
    by (auto simp add: combine_analysis_results_def get_or_def Let_def)
  have le: "py_round (max (c - 10) 60) 1 \<le> c" if "60 \<le> c"
  proof (cases "c \<le> 70")
    case True
    then have "max (c - 10) 60 = 60" by simp
    then show ?thesis using that by simp
  next
    case False
    then have "max (c - 10) 60 = c - 10" by simp
    moreover have "py_round (c - 10) 1 \<le> (c - 10) + 1 / (2 * 10 ^ 1)" by (rule py_round_upper)
    ultimately show ?thesis by simp
  qed
  have floor: "py_round (max (c - 10) 60) 1 = 60" if "c < 60"
  proof -
    have "max (c - 10) 60 = 60" using that by simp
    then show ?thesis by simp
  qed
  show ?thesis using cond conf le floor by simp
qed

text \<open>The rule at a verdict \<open>BAD\<close> of confidence 90.\<close>

theorem negative_verdict_rule_witness:
  "condition (combine_analysis_results (Some (example_verdict ''BAD'' 90))
      (example_metrics 0.5 0.2 80)) = BAD_LABEL
   \<and> confidence (combine_analysis_results (Some (example_verdict ''BAD'' 90))
      (example_metrics 0.5 0.2 80)) \<le> 90"
  using negative_verdict_rule [of "example_metrics 0.5 0.2 80" "''BAD''"
      "example_verdict ''BAD'' 90" 90]
  by (simp add: example_metrics_def example_verdict_def)

text \<open>
  At a raw confidence of 50 the fused confidence is the floor 60, which exceeds the raw
  confidence.
\<close>

theorem negative_verdict_rule_counterexample:
  "\<not> confidence (combine_analysis_results (Some (example_verdict ''BAD'' 50))
        (example_metrics 0 0 80)) \<le> 50"
  by (simp add: combine_analysis_results_def example_metrics_def example_verdict_def
      get_or_def Let_def)

text \<open>
  Claim C4 (remote verdict absent). With no remote verdict and local metrics
  \<open>brown_rot_percentage = 0\<close>, \<open>black_spots_percentage = 0\<close>, \<open>freshness_score = 90\<close>, the
  threshold ladder ends in the EXCELLENT band, not in BAD, POOR or FAIR, with that band's
  confidence 80.
\<close>

theorem remote_absent_fallback:
  assumes "brown_rot_percentage la = 0"
    and "black_spots_percentage la = 0"
    and "freshness_score la = 90"
  shows "condition (combine_analysis_results None la) = EXCELLENT_LABEL
       \<and> condition (combine_analysis_results None la) \<notin> {BAD_LABEL, POOR_LABEL, FAIR_LABEL}
       \<and> confidence (combine_analysis_results None la) = 80"
  using assms
  by (simp add: combine_analysis_results_def EXCELLENT_LABEL_def BAD_LABEL_def POOR_LABEL_def
      FAIR_LABEL_def emoji_star_def emoji_no_entry_def emoji_warning_def)

text \<open>The ladder on the metrics of the claim.\<close>

theorem remote_absent_fallback_witness:
  "condition (combine_analysis_results None (example_metrics 0 0 90)) = EXCELLENT_LABEL
   \<and> confidence (combine_analysis_results None (example_metrics 0 0 90)) = 80"
  using remote_absent_fallback [of "example_metrics 0 0 90"]
  by (simp add: example_metrics_def)

section \<open>The keyword fallback classifier\<close>

lemma lower_keeps_keyword:
  assumes "lower keyword = keyword" and "sublist keyword text"
  shows "sublist keyword (lower text)"
proof -
  have "sublist (map lower_char keyword) (map lower_char text)"
    using assms(2) by (rule map_mono_sublist)
  then show ?thesis using assms(1) by (simp add: lower_def)
qed

lemma lower_moldy: "lower ''moldy'' = ''moldy''"
  by code_simp

lemma lower_unsafe: "lower ''unsafe'' = ''unsafe''"
  by code_simp

lemma classify_moldy:
  assumes "sublist ''moldy'' text_lower"
  shows "classify text_lower = (''BAD'', 85)"
  using assms by (simp add: classify_def conditions_def any_keyword_in_def)

lemma goodUI_classify_moldy:
  assumes "sublist ''moldy'' text_lower"
  shows "goodUI_classify text_lower =
    (''BAD'', 85, ''discard'',
     [''Store in cool, dry place'', ''Check fruits regularly'',
      ''Remove damaged fruits immediately''])"
  using assms by (simp add: goodUI_classify_def any_keyword_in_def)

lemma classify_first_match:
  assumes "i < length conditions"
    and "any_keyword_in (snd (conditions ! i)) text_lower"
    and "\<forall>j<i. \<not> any_keyword_in (snd (conditions ! j)) text_lower"
  shows "classify text_lower =
    (fst (conditions ! i), if fst (conditions ! i) \<in> {''FAIR'', ''POOR''} then 70 else 85)"
proof -
  have "find (\<lambda>(cond, keywords). any_keyword_in keywords text_lower) conditions
      = Some (conditions ! i)"
    unfolding find_Some_iff
    using assms by (intro exI [of _ i]) (auto simp: case_prod_beta)
  then show ?thesis
    by (simp add: classify_def case_prod_beta split: prod.splits)
qed

lemma find_first_match:
  assumes "i < length xs" and "P (xs ! i)" and "\<forall>j<i. \<not> P (xs ! j)"
  shows "find P xs = Some (xs ! i)"
  unfolding find_Some_iff using assms by (intro exI [of _ i]) auto

lemma goodUI_classify_find:
  "goodUI_classify text_lower =
     (case find (\<lambda>(cond, keywords, rest). any_keyword_in keywords text_lower) goodUI_categories of
        Some (cond, keywords, conf, action, prevention) \<Rightarrow> (cond, conf, action, prevention)
      | None \<Rightarrow> goodUI_default)"
  by (simp add: goodUI_classify_def goodUI_categories_def goodUI_default_def)

lemma goodUI_classify_first_match:
  assumes "k < length goodUI_categories"
    and "any_keyword_in (fst (snd (goodUI_categories ! k))) text_lower"
    and "\<forall>j<k. \<not> any_keyword_in (fst (snd (goodUI_categories ! j))) text_lower"
  shows "goodUI_classify text_lower =
    (case goodUI_categories ! k of
       (cond, keywords, conf, action, prevention) \<Rightarrow> (cond, conf, action, prevention))"
proof -
  have "find (\<lambda>(cond, keywords, rest). any_keyword_in keywords text_lower) goodUI_categories
      = Some (goodUI_categories ! k)"
    using assms by (intro find_first_match) (auto simp: case_prod_beta)
  then show ?thesis
    by (simp add: goodUI_classify_find split: prod.splits)
qed

lemma goodUI_classify_no_match:
  assumes "\<not> list_ex (\<lambda>(cond, keywords, rest). any_keyword_in keywords text_lower)
                goodUI_categories"
  shows "goodUI_classify text_lower = goodUI_default"
proof -
  have "find (\<lambda>(cond, keywords, rest). any_keyword_in keywords text_lower) goodUI_categories
      = None"
    unfolding find_None_iff using assms by (auto simp add: list_ex_iff)
  then show ?thesis by (simp add: goodUI_classify_find)
qed

lemma priority_orders:
  "map fst conditions = [''BAD'', ''INSECT_DAMAGED'', ''POOR'', ''FAIR'', ''GOOD'', ''EXCELLENT'']"
  "map fst goodUI_categories = [''BAD'', ''INSECT_DAMAGED'', ''EXCELLENT'', ''GOOD'', ''FAIR'']"
  by (simp_all add: conditions_def goodUI_categories_def)

text \<open>
  Claim C6 (keyword fallback, BAD first), as the code has it. For a response text that
  contains \<open>moldy\<close> and \<open>unsafe\<close>, the classifier returns the category \<open>BAD\<close> with the
  confidence 85 and the tips of \<open>BAD\<close>, whatever other keywords the text holds; the action
  is \<open>discard\<close> in the variant \<open>goodUI\<close> and \<open>discard immediately\<close> in
  \<open>create_fallback_analysis\<close>. The keyword sets are tested in a fixed order, \<open>BAD\<close> first
  (\<open>BAD\<close>, \<open>INSECT_DAMAGED\<close>, \<open>POOR\<close>, \<open>FAIR\<close>, \<open>GOOD\<close>, \<open>EXCELLENT\<close>; in \<open>goodUI\<close>: \<open>BAD\<close>,
  \<open>INSECT_DAMAGED\<close>, \<open>EXCELLENT\<close>, \<open>GOOD\<close>, \<open>FAIR\<close>, and \<open>POOR\<close> when nothing matches). The
  first category one of whose keywords occurs wins, and its confidence, action and tips
  depend on the category only: confidence 70 for \<open>FAIR\<close> and \<open>POOR\<close> and 85 otherwise, the
  action of the table \<open>actions\<close>, the tips of \<open>BAD\<close> or \<open>INSECT_DAMAGED\<close> or else the default
  tips; in \<open>goodUI\<close> the values of the row of its table.
\<close>

theorem keyword_fallback_bad:
  assumes "sublist ''moldy'' response_text"
    and "sublist ''unsafe'' response_text"
  shows "condition_category (create_fallback_analysis response_text) = Some ''BAD''
       \<and> action_required (create_fallback_analysis response_text) = Some ''discard immediately''
       \<and> confidence_score (create_fallback_analysis response_text) = Some 85
       \<and> prevention_tips (create_fallback_analysis response_text)
           = Some (dict_get fallback_prevention_tips ''BAD'' [])
       \<and> condition_category (goodUI_create_fallback_analysis response_text) = Some ''BAD''
       \<and> action_required (goodUI_create_fallback_analysis response_text) = Some ''discard''
       \<and> confidence_score (goodUI_create_fallback_analysis response_text) = Some 85
       \<and> prevention_tips (goodUI_create_fallback_analysis response_text)
           = Some [''Store in cool, dry place'', ''Check fruits regularly'',
                   ''Remove damaged fruits immediately'']
       \<and> map fst conditions
           = [''BAD'', ''INSECT_DAMAGED'', ''POOR'', ''FAIR'', ''GOOD'', ''EXCELLENT'']
       \<and> map fst goodUI_categories
           = [''BAD'', ''INSECT_DAMAGED'', ''EXCELLENT'', ''GOOD'', ''FAIR'']
       \<and> (i < length conditions
            \<and> any_keyword_in (snd (conditions ! i)) (lower text)
            \<and> (\<forall>j<i. \<not> any_keyword_in (snd (conditions ! j)) (lower text))
          \<longrightarrow> condition_category (create_fallback_analysis text) = Some (fst (conditions ! i))
            \<and> confidence_score (create_fallback_analysis text)
                = Some (if fst (conditions ! i) \<in> {''FAIR'', ''POOR''} then 70 else 85)
            \<and> action_required (create_fallback_analysis text)
                = Some (dict_get actions (fst (conditions ! i)) ''check manually'')
            \<and> prevention_tips (create_fallback_analysis text)
                = Some (dict_get fallback_prevention_tips (fst (conditions ! i)) default_tips))
       \<and> (k < length goodUI_categories
            \<and> any_keyword_in (fst (snd (goodUI_categories ! k))) (lower text)
            \<and> (\<forall>j<k. \<not> any_keyword_in (fst (snd (goodUI_categories ! j))) (lower text))
          \<longrightarrow> (case goodUI_categories ! k of
                 (cond, keywords, conf, action, prevention) \<Rightarrow>
                   condition_category (goodUI_create_fallback_analysis text) = Some cond
                   \<and> confidence_score (goodUI_create_fallback_analysis text) = Some conf
                   \<and> action_required (goodUI_create_fallback_analysis text) = Some action
                   \<and> prevention_tips (goodUI_create_fallback_analysis text) = Some prevention))
       \<and> (\<not> list_ex (\<lambda>(cond, keywords, rest). any_keyword_in keywords (lower text))
                goodUI_categories
          \<longrightarrow> condition_category (goodUI_create_fallback_analysis text) = Some ''POOR''
            \<and> confidence_score (goodUI_create_fallback_analysis text) = Some 60
            \<and> action_required (goodUI_create_fallback_analysis text)
                = Some ''consume immediately''
            \<and> prevention_tips (goodUI_create_fallback_analysis text)
                = Some [''Better selection at purchase'', ''Improved storage''])"
proof -
  have low: "sublist ''moldy'' (lower response_text)"
    using lower_moldy assms(1) by (rule lower_keeps_keyword)
  have a: "classify (lower response_text) = (''BAD'', 85)"
    using low by (rule classify_moldy)
  have b: "goodUI_classify (lower response_text) =
    (''BAD'', 85, ''discard'',
     [''Store in cool, dry place'', ''Check fruits regularly'',
      ''Remove damaged fruits immediately''])"
    using low by (rule goodUI_classify_moldy)
  have c: "condition_category (create_fallback_analysis text) = Some (fst (conditions ! i))
            \<and> confidence_score (create_fallback_analysis text)
                = Some (if fst (conditions ! i) \<in> {''FAIR'', ''POOR''} then 70 else 85)
            \<and> action_required (create_fallback_analysis text)
                = Some (dict_get actions (fst (conditions ! i)) ''check manually'')
            \<and> prevention_tips (create_fallback_analysis text)
                = Some (dict_get fallback_prevention_tips (fst (conditions ! i)) default_tips)"
    if "i < length conditions" "any_keyword_in (snd (conditions ! i)) (lower text)"
      "\<forall>j<i. \<not> any_keyword_in (snd (conditions ! j)) (lower text)"
  proof -
    have dflt: "dict_get fallback_prevention_tips ''default'' [] = default_tips"
      by (simp add: dict_get_def fallback_prevention_tips_def)
    show ?thesis
      using classify_first_match [OF that]
      by (simp add: create_fallback_analysis_def Let_def dflt)
  qed
  have d: "condition_category (create_fallback_analysis response_text) = Some ''BAD''
       \<and> action_required (create_fallback_analysis response_text) = Some ''discard immediately''
       \<and> confidence_score (create_fallback_analysis response_text) = Some 85
       \<and> prevention_tips (create_fallback_analysis response_text)
           = Some (dict_get fallback_prevention_tips ''BAD'' [])"
    using a by (simp add: create_fallback_analysis_def Let_def dict_get_def actions_def
        fallback_prevention_tips_def)
  have e: "condition_category (goodUI_create_fallback_analysis response_text) = Some ''BAD''
       \<and> action_required (goodUI_create_fallback_analysis response_text) = Some ''discard''
       \<and> confidence_score (goodUI_create_fallback_analysis response_text) = Some 85
       \<and> prevention_tips (goodUI_create_fallback_analysis response_text)
           = Some [''Store in cool, dry place'', ''Check fruits regularly'',
                   ''Remove damaged fruits immediately'']"
    using b by (simp add: goodUI_create_fallback_analysis_def Let_def)
  have f: "case goodUI_categories ! k of
             (cond, keywords, conf, action, prevention) \<Rightarrow>
               condition_category (goodUI_create_fallback_analysis text) = Some cond
               \<and> confidence_score (goodUI_create_fallback_analysis text) = Some conf
               \<and> action_required (goodUI_create_fallback_analysis text) = Some action
               \<and> prevention_tips (goodUI_create_fallback_analysis text) = Some prevention"
    if "k < length goodUI_categories"
      "any_keyword_in (fst (snd (goodUI_categories ! k))) (lower text)"
      "\<forall>j<k. \<not> any_keyword_in (fst (snd (goodUI_categories ! j))) (lower text)"
    using goodUI_classify_first_match [OF that]
    by (simp add: goodUI_create_fallback_analysis_def Let_def split: prod.splits)
  have g: "condition_category (goodUI_create_fallback_analysis text) = Some ''POOR''
            \<and> confidence_score (goodUI_create_fallback_analysis text) = Some 60
            \<and> action_required (goodUI_create_fallback_analysis text)
                = Some ''consume immediately''
            \<and> prevention_tips (goodUI_create_fallback_analysis text)
                = Some [''Better selection at purchase'', ''Improved storage'']"
    if "\<not> list_ex (\<lambda>(cond, keywords, rest). any_keyword_in keywords (lower text))
                goodUI_categories"
    using goodUI_classify_no_match [OF that]
    by (simp add: goodUI_create_fallback_analysis_def Let_def goodUI_default_def)
  have C: "i < length conditions
            \<and> any_keyword_in (snd (conditions ! i)) (lower text)
            \<and> (\<forall>j<i. \<not> any_keyword_in (snd (conditions ! j)) (lower text))
          \<longrightarrow> condition_category (create_fallback_analysis text) = Some (fst (conditions ! i))
            \<and> confidence_score (create_fallback_analysis text)
                = Some (if fst (conditions ! i) \<in> {''FAIR'', ''POOR''} then 70 else 85)
            \<and> action_required (create_fallback_analysis text)
                = Some (dict_get actions (fst (conditions ! i)) ''check manually'')
            \<and> prevention_tips (create_fallback_analysis text)
                = Some (dict_get fallback_prevention_tips (fst (conditions ! i)) default_tips)"
    using c by blast
  have F: "k < length goodUI_categories
            \<and> any_keyword_in (fst (snd (goodUI_categories ! k))) (lower text)
            \<and> (\<forall>j<k. \<not> any_keyword_in (fst (snd (goodUI_categories ! j))) (lower text))
          \<longrightarrow> (case goodUI_categories ! k of
                 (cond, keywords, conf, action, prevention) \<Rightarrow>
                   condition_category (goodUI_create_fallback_analysis text) = Some cond
                   \<and> confidence_score (goodUI_create_fallback_analysis text) = Some conf
                   \<and> action_required (goodUI_create_fallback_analysis text) = Some action
                   \<and> prevention_tips (goodUI_create_fallback_analysis text) = Some prevention)"
  proof (intro impI)
    assume h: "k < length goodUI_categories
        \<and> any_keyword_in (fst (snd (goodUI_categories ! k))) (lower text)
        \<and> (\<forall>j<k. \<not> any_keyword_in (fst (snd (goodUI_categories ! j))) (lower text))"
    show "case goodUI_categories ! k of
            (cond, keywords, conf, action, prevention) \<Rightarrow>
              condition_category (goodUI_create_fallback_analysis text) = Some cond
              \<and> confidence_score (goodUI_create_fallback_analysis text) = Some conf
              \<and> action_required (goodUI_create_fallback_analysis text) = Some action
              \<and> prevention_tips (goodUI_create_fallback_analysis text) = Some prevention"
      by (rule f) (simp_all add: h)
  qed
  have G: "\<not> list_ex (\<lambda>(cond, keywords, rest). any_keyword_in keywords (lower text))
                goodUI_categories
          \<longrightarrow> condition_category (goodUI_create_fallback_analysis text) = Some ''POOR''
            \<and> confidence_score (goodUI_create_fallback_analysis text) = Some 60
            \<and> action_required (goodUI_create_fallback_analysis text)
                = Some ''consume immediately''
            \<and> prevention_tips (goodUI_create_fallback_analysis text)
                = Some [''Better selection at purchase'', ''Improved storage'']"
    using g by blast
  show ?thesis
    using d e priority_orders(1) priority_orders(2) C F G
    by (elim conjE) (intro conjI; assumption)
qed

text \<open>
  The classifier on a text with both keywords, and on a text with a keyword of
  \<open>INSECT_DAMAGED\<close> and one of \<open>GOOD\<close>: the category tested first wins in both variants.
\<close>

theorem keyword_fallback_bad_witness:
  "sublist ''moldy'' ''The peach is moldy and unsafe to eat''
   \<and> sublist ''unsafe'' ''The peach is moldy and unsafe to eat''
   \<and> condition_category (create_fallback_analysis ''The peach is moldy and unsafe to eat'')
       = Some ''BAD''
   \<and> action_required (create_fallback_analysis ''The peach is moldy and unsafe to eat'')
       = Some ''discard immediately''
   \<and> action_required (goodUI_create_fallback_analysis ''The peach is moldy and unsafe to eat'')
       = Some ''discard''
   \<and> condition_category (create_fallback_analysis ''Small holes, otherwise fresh'')
       = Some ''INSECT_DAMAGED''
   \<and> confidence_score (create_fallback_analysis ''Small holes, otherwise fresh'') = Some 85
   \<and> condition_category (goodUI_create_fallback_analysis ''Small holes, otherwise fresh'')
       = Some ''INSECT_DAMAGED''
   \<and> confidence_score (goodUI_create_fallback_analysis ''Small holes, otherwise fresh'')
       = Some 80"
proof -
  have m: "sublist ''moldy'' ''The peach is moldy and unsafe to eat''" by code_simp
  have u: "sublist ''unsafe'' ''The peach is moldy and unsafe to eat''" by code_simp
  have i1: "(1::nat) < length conditions" by (simp add: conditions_def)
  have m1: "any_keyword_in (snd (conditions ! 1)) (lower ''Small holes, otherwise fresh'')"
    by code_simp
  have n0: "\<not> any_keyword_in (snd (conditions ! 0)) (lower ''Small holes, otherwise fresh'')"
    by code_simp
  have n1: "\<forall>j<1. \<not> any_keyword_in (snd (conditions ! j)) (lower ''Small holes, otherwise fresh'')"
    using n0 by simp
  have k1: "(1::nat) < length goodUI_categories" by (simp add: goodUI_categories_def)
  have gm1: "any_keyword_in (fst (snd (goodUI_categories ! 1)))
      (lower ''Small holes, otherwise fresh'')"
    by code_simp
  have gn0: "\<not> any_keyword_in (fst (snd (goodUI_categories ! 0)))
      (lower ''Small holes, otherwise fresh'')"
    by code_simp
  have gn1: "\<forall>j<1. \<not> any_keyword_in (fst (snd (goodUI_categories ! j)))
      (lower ''Small holes, otherwise fresh'')"
    using gn0 by simp
  have c1: "fst (conditions ! Suc 0) = ''INSECT_DAMAGED''" by (simp add: conditions_def)
  have r1: "goodUI_categories ! Suc 0 =
      (''INSECT_DAMAGED'',
       [''insect'', ''holes'', ''bite marks'', ''pest damage'', ''chewed'', ''puncture''],
       80, ''remove from batch'',
       [''Use mesh covers'', ''Regular inspection'', ''Natural pest repellents''])"
    by (simp add: goodUI_categories_def)
  note t = keyword_fallback_bad [OF m u, of 1 "''Small holes, otherwise fresh''" 1]
  show ?thesis using m u t i1 m1 n1 k1 gm1 gn1 by (simp add: c1 r1)
qed

text \<open>
  On a text with both keywords \<open>create_fallback_analysis\<close> returns the action
  \<open>discard immediately\<close>, not \<open>discard\<close>.
\<close>

theorem keyword_fallback_bad_counterexample:
  "sublist ''moldy'' ''The peach is moldy and unsafe to eat''
   \<and> sublist ''unsafe'' ''The peach is moldy and unsafe to eat''
   \<and> action_required (create_fallback_analysis ''The peach is moldy and unsafe to eat'')
       \<noteq> Some ''discard''"
proof -
  have m: "sublist ''moldy'' ''The peach is moldy and unsafe to eat''" by code_simp
  have u: "sublist ''unsafe'' ''The peach is moldy and unsafe to eat''" by code_simp
  have a: "action_required (create_fallback_analysis ''The peach is moldy and unsafe to eat'')
      = Some ''discard immediately''"
    by code_simp
  show ?thesis using m u a by simp
qed

text \<open>
  Claim C10 (default bucket). For a response text in which no keyword of any category
  occurs, the classifier returns \<open>FAIR\<close> with confidence 60, the action
  \<open>use within 2-3 days\<close>, the safety assessment \<open>likely safe\<close> and the default tips; the
  tips table has no entry for \<open>FAIR\<close>.
\<close>

theorem keyword_fallback_default:
  assumes "\<not> list_ex (\<lambda>(cond, keywords). any_keyword_in keywords (lower response_text))
                conditions"
  shows "condition_category (create_fallback_analysis response_text) = Some ''FAIR''
       \<and> confidence_score (create_fallback_analysis response_text) = Some 60
       \<and> action_required (create_fallback_analysis response_text) = Some ''use within 2-3 days''
       \<and> safety_assessment (create_fallback_analysis response_text) = Some ''likely safe''
       \<and> prevention_tips (create_fallback_analysis response_text) = Some default_tips
       \<and> map_of fallback_prevention_tips ''FAIR'' = None"
proof -
  have "find (\<lambda>(cond, keywords). any_keyword_in keywords (lower response_text)) conditions = None"
    unfolding find_None_iff using assms by (auto simp add: list_ex_iff)
  then have "classify (lower response_text) = (''FAIR'', 60)"
    by (simp add: classify_def)
  then show ?thesis
    by (simp add: create_fallback_analysis_def Let_def dict_get_def actions_def
        fallback_prevention_tips_def)
qed

text \<open>The classifier on a text without keywords.\<close>

theorem keyword_fallback_default_witness:
  "\<not> list_ex (\<lambda>(cond, keywords). any_keyword_in keywords (lower ''Two pears on a table''))
       conditions
   \<and> condition_category (create_fallback_analysis ''Two pears on a table'') = Some ''FAIR''
   \<and> confidence_score (create_fallback_analysis ''Two pears on a table'') = Some 60"
proof -
  have h: "\<not> list_ex (\<lambda>(cond, keywords).
      any_keyword_in keywords (lower ''Two pears on a table'')) conditions"
    by code_simp
  show ?thesis using h keyword_fallback_default [OF h] by simp
qed

section \<open>Shapes of the masks\<close>

lemma size_of_sum: "size_of a = sum_list (map length a)"
  by (simp add: size_of_def length_concat)

lemma map_length_nth: "map (\<lambda>i. length (m ! i)) [0..<length m] = map length m"
proof -
  have "map (\<lambda>i. length (m ! i)) [0..<length m] = map length (map ((!) m) [0..<length m])"
    by (simp add: comp_def)
  then show ?thesis by (simp only: map_nth)
qed

lemma lengths_erode: "map length (erode selem m) = map length m"
proof -
  have "map length (erode selem m) = map (\<lambda>i. length (m ! i)) [0..<length m]"
    by (simp add: erode_def comp_def)
  then show ?thesis by (simp only: map_length_nth)
qed

lemma lengths_dilate: "map length (dilate selem m) = map length m"
proof -
  have "map length (dilate selem m) = map (\<lambda>i. length (m ! i)) [0..<length m]"
    by (simp add: dilate_def comp_def)
  then show ?thesis by (simp only: map_length_nth)
qed

lemma size_morph_open: "size_of (morph_open selem m) = size_of m"
  by (simp add: morph_open_def size_of_sum lengths_erode lengths_dilate)

lemma size_morph_close: "size_of (morph_close selem m) = size_of m"
  by (simp add: morph_close_def size_of_sum lengths_erode lengths_dilate)

lemma size_inRange: "size_of (inRange img lo hi) = size_of img"
  by (simp add: size_of_sum inRange_def comp_def)

lemma countNonZero_le_size: "countNonZero m \<le> size_of m"
  by (simp add: countNonZero_def size_of_def)


lemma size_map2_le: "sum_list (map length (map2 (map2 f) a b)) \<le> sum_list (map length a)"
proof (induction a arbitrary: b)
  case Nil
  then show ?case by simp
next
  case (Cons row a)
  show ?case
  proof (cases b)
    case Nil
    then show ?thesis by simp
  next
    case (Cons row' b')
    have "sum_list (map length (map2 (map2 f) a b')) \<le> sum_list (map length a)"
      by (rule Cons.IH)
    then show ?thesis using Cons by simp
  qed
qed

lemma size_bitwise_or: "size_of (bitwise_or a b) \<le> size_of a"
  unfolding size_of_sum bitwise_or_def by (rule size_map2_le)

lemma size_bitwise_and: "size_of (bitwise_and a b) \<le> size_of a"
  unfolding size_of_sum bitwise_and_def by (rule size_map2_le)


lemma sum_list_constant_rows:
  "(\<And>row. row \<in> set a \<Longrightarrow> length row = k) \<Longrightarrow> sum_list (map length a) = length a * k"
  by (induction a) simp_all

lemma rectangular_size: "rectangular a \<Longrightarrow> size_of a = shape0 a * shape1 a"
  unfolding size_of_sum shape0_def rectangular_def list_all_iff
  by (rule sum_list_constant_rows) simp

lemma shape1_lengths: "shape1 a = (case map length a of [] \<Rightarrow> 0 | n # _ \<Rightarrow> n)"
  by (cases a) (simp_all add: shape1_def)

lemma same_shape_shape1: "same_shape a b \<Longrightarrow> shape1 a = shape1 b"
  by (simp add: same_shape_def shape1_lengths)

lemma same_shape_shape0: "same_shape a b \<Longrightarrow> shape0 a = shape0 b"
  unfolding same_shape_def shape0_def by (rule map_eq_imp_length_eq)

lemma same_shape_size: "same_shape a b \<Longrightarrow> size_of a = size_of b"
  by (simp add: same_shape_def size_of_sum)

lemma size_brown_rot_mask: "size_of (brown_rot_mask hsv lab) \<le> size_of hsv"
proof -
  have "size_of (brown_rot_mask hsv lab)
      = size_of (bitwise_or (brown_mask_hsv hsv) (brown_mask_lab lab))"
    by (simp add: brown_rot_mask_def Let_def size_morph_open size_morph_close)
  also have "\<dots> \<le> size_of (brown_mask_hsv hsv)" by (rule size_bitwise_or)
  also have "\<dots> = size_of hsv" by (simp add: brown_mask_hsv_def size_inRange)
  finally show ?thesis .
qed

lemma size_black_spots_mask: "size_of (black_spots_mask cv hsv gray) \<le> size_of hsv"
proof -
  have "map length (black_spots_mask cv hsv gray)
      = map (\<lambda>i. length (black_combined_mask hsv gray ! i))
          [0..<length (black_combined_mask hsv gray)]"
    by (simp add: black_spots_mask_def Let_def comp_def)
  then have "map length (black_spots_mask cv hsv gray) = map length (black_combined_mask hsv gray)"
    by (simp only: map_length_nth)
  then have "size_of (black_spots_mask cv hsv gray) = size_of (black_combined_mask hsv gray)"
    by (simp add: size_of_sum)
  also have "\<dots> = size_of (bitwise_and (black_mask_hsv hsv) (black_mask_gray gray))"
    by (simp add: black_combined_mask_def size_morph_open)
  also have "\<dots> \<le> size_of (black_mask_hsv hsv)" by (rule size_bitwise_and)
  also have "\<dots> = size_of hsv" by (simp add: black_mask_hsv_def size_inRange)
  finally show ?thesis .
qed

section \<open>Ranges of the local metrics\<close>

lemma mask_percentage_range:
  assumes "countNonZero m \<le> shape0 h * shape1 h" and "0 < shape0 h * shape1 h"
  shows "\<exists>p. mask_percentage m h = Inr p \<and> 0 \<le> p \<and> p \<le> 100"
proof -
  define r where "r = real (countNonZero m) / real (shape0 h * shape1 h)"
  have pos: "0 < real (shape0 h * shape1 h)" using assms(2) by simp
  have le: "real (countNonZero m) \<le> real (shape0 h * shape1 h)"
    using assms(1) by (simp only: of_nat_le_iff)
  have r0: "0 \<le> r" unfolding r_def by simp
  have r1: "r \<le> 1" unfolding r_def using le pos divide_le_eq_1_pos by blast
  have eq: "mask_percentage m h = Inr (py_round (r * 100) 2)"
    using assms(2) by (simp add: mask_percentage_def Let_def bind_err_def py_truediv_def r_def)
  have lo: "0 \<le> py_round (r * 100) 2"
    by (rule py_round_nonneg) (use r0 in simp)
  have "r * 100 \<le> 100" using r1 by simp
  then have hi: "py_round (r * 100) 2 \<le> 100" by (rule py_round_le_numeral)
  show ?thesis using eq lo hi by blast
qed

lemma np_mean_nonneg: "(\<And>x. x \<in> set xs \<Longrightarrow> 0 \<le> x) \<Longrightarrow> 0 \<le> np_mean xs"
  by (simp add: np_mean_def sum_list_nonneg)

lemma np_var_nonneg: "0 \<le> np_var xs"
  unfolding np_var_def by (rule np_mean_nonneg) auto

lemma np_std_nonneg: "0 \<le> np_std xs"
  by (simp add: np_std_def np_var_nonneg)

lemma channel_mean_nonneg:
  "0 \<le> np_mean (channel0 img)" "0 \<le> np_mean (channel1 img)" "0 \<le> np_mean (channel2 img)"
  by (rule np_mean_nonneg; auto simp: channel0_def channel1_def channel2_def)+

lemma contourArea_nonneg: "0 \<le> contourArea c"
  by (simp add: contourArea_def)

lemma clamp_range: "0 \<le> x \<Longrightarrow> 0 \<le> min 100 x \<and> min 100 x \<le> (100::real)"
  by simp

lemma freshness_range:
  assumes "0 < size_of (Canny cv (cvtColor_BGR2GRAY cv bgr))"
  shows "\<exists>f. calculate_freshness_score_enhanced cv hsv lab bgr = Inr f \<and> 0 \<le> f \<and> f \<le> 100"
proof -
  define b where "b = min 100 ((np_mean (channel0 lab) / 255) * 120)"
  define s where "s = min 100 ((np_mean (channel1 hsv) / 255) * 110)"
  define v where "v = min 100 ((np_std (channel2 bgr) + np_std (channel1 bgr)
                                  + np_std (channel0 bgr)) * 0.7)"
  define edges where "edges = Canny cv (cvtColor_BGR2GRAY cv bgr)"
  define e where "e = min 100 (real (countNonZero edges) / real (size_of edges) * 100 * 10)"
  have nz: "real (size_of edges) \<noteq> 0" using assms by (simp add: edges_def)
  have eq: "calculate_freshness_score_enhanced cv hsv lab bgr
      = Inr (py_round (b * 0.25 + s * 0.35 + v * 0.25 + e * 0.15) 2)"
    using nz
    by (simp add: calculate_freshness_score_enhanced_def Let_def bind_err_def py_truediv_def
        b_def s_def v_def e_def edges_def)
  have "0 \<le> (np_mean (channel0 lab) / 255) * 120"
    using channel_mean_nonneg(1) [of lab] by simp
  then have bb: "0 \<le> b \<and> b \<le> 100" unfolding b_def by (rule clamp_range)
  have "0 \<le> (np_mean (channel1 hsv) / 255) * 110"
    using channel_mean_nonneg(2) [of hsv] by simp
  then have sb: "0 \<le> s \<and> s \<le> 100" unfolding s_def by (rule clamp_range)
  have "0 \<le> (np_std (channel2 bgr) + np_std (channel1 bgr) + np_std (channel0 bgr)) * 0.7"
    using np_std_nonneg [of "channel2 bgr"] np_std_nonneg [of "channel1 bgr"]
      np_std_nonneg [of "channel0 bgr"] by simp
  then have vb: "0 \<le> v \<and> v \<le> 100" unfolding v_def by (rule clamp_range)
  have "0 \<le> real (countNonZero edges) / real (size_of edges) * 100 * 10" by simp
  then have eb: "0 \<le> e \<and> e \<le> 100" unfolding e_def by (rule clamp_range)
  have lo: "0 \<le> b * 0.25 + s * 0.35 + v * 0.25 + e * 0.15"
    using bb sb vb eb by simp
  have hi: "b * 0.25 + s * 0.35 + v * 0.25 + e * 0.15 \<le> 100"
    using bb sb vb eb by simp
  have "0 \<le> py_round (b * 0.25 + s * 0.35 + v * 0.25 + e * 0.15) 2"
    using lo by (rule py_round_nonneg)
  moreover have "py_round (b * 0.25 + s * 0.35 + v * 0.25 + e * 0.15) 2 \<le> 100"
    using hi by (rule py_round_le_numeral)
  ultimately show ?thesis using eq by blast
qed

lemma texture_range:
  "0 \<le> analyze_texture_quality cv img \<and> analyze_texture_quality cv img \<le> 100"
proof -
  define gray where "gray = cvtColor_BGR2GRAY cv img"
  define t where "t = np_var (concat (Laplacian cv gray)) * 0.3
      + np_mean (map2 (\<lambda>gx gy. sqrt (gx\<^sup>2 + gy\<^sup>2)) (concat (Sobel_x cv gray))
          (concat (Sobel_y cv gray))) * 0.3
      + np_mean (map abs (concat (filter2D cv gray))) * 0.4"
  have eq: "analyze_texture_quality cv img = py_round (min 100 t) 2"
    by (simp add: analyze_texture_quality_def Let_def t_def gray_def)
  have m2: "0 \<le> np_mean (map2 (\<lambda>gx gy. sqrt (gx\<^sup>2 + gy\<^sup>2)) (concat (Sobel_x cv gray))
          (concat (Sobel_y cv gray)))"
    by (rule np_mean_nonneg) auto
  have m3: "0 \<le> np_mean (map abs (concat (filter2D cv gray)))"
    by (rule np_mean_nonneg) auto
  have "0 \<le> t" unfolding t_def using np_var_nonneg [of "concat (Laplacian cv gray)"] m2 m3
    by simp
  then have c: "0 \<le> min 100 t \<and> min 100 t \<le> 100" by (rule clamp_range)
  have "0 \<le> py_round (min 100 t) 2" using c by (intro py_round_nonneg) simp
  moreover have "py_round (min 100 t) 2 \<le> 100" using c by (intro py_round_le_numeral) simp
  ultimately show ?thesis using eq by simp
qed

lemma color_variance_nonneg: "0 \<le> analyze_color_uniformity cv img"
proof -
  define lab where "lab = cvtColor_BGR2LAB cv img"
  have "0 \<le> np_std (channel0 lab) * 0.5 + np_std (channel1 lab) * 0.25
      + np_std (channel2 lab) * 0.25"
    using np_std_nonneg [of "channel0 lab"] np_std_nonneg [of "channel1 lab"]
      np_std_nonneg [of "channel2 lab"] by simp
  then have "0 \<le> py_round (np_std (channel0 lab) * 0.5 + np_std (channel1 lab) * 0.25
      + np_std (channel2 lab) * 0.25) 2"
    by (rule py_round_nonneg)
  then show ?thesis by (simp add: analyze_color_uniformity_def Let_def lab_def)
qed

lemma analyze_fruit_shape_value:
  "analyze_fruit_shape cv img =
     Inr (case shape_contours cv img of
            [] \<Rightarrow> 50
          | c # cs \<Rightarrow>
              (let largest_contour = max_by contourArea c cs;
                   area = contourArea largest_contour;
                   perimeter = arcLength largest_contour;
                   hull_area = contourArea (convexHull cv largest_contour)
               in if perimeter > 0
                  then min 100 (py_round
                         ((4 * pi * area / (perimeter * perimeter) * 0.6
                           + (if hull_area > 0 then area / hull_area else 0) * 0.4) * 100) 2)
                  else 50))"
  by (cases "shape_contours cv img")
    (auto simp add: analyze_fruit_shape_def Let_def bind_err_def py_truediv_def py_max_by_def)

lemma shape_range:
  "\<exists>v. analyze_fruit_shape cv img = Inr v \<and> 0 \<le> v \<and> v \<le> 100"
proof (cases "shape_contours cv img")
  case Nil
  then show ?thesis by (simp add: analyze_fruit_shape_value)
next
  case (Cons c cs)
  define largest where "largest = max_by contourArea c cs"
  define area where "area = contourArea largest"
  define perimeter where "perimeter = arcLength largest"
  define hull_area where "hull_area = contourArea (convexHull cv largest)"
  define score where "score = (4 * pi * area / (perimeter * perimeter) * 0.6
          + (if hull_area > 0 then area / hull_area else 0) * 0.4) * 100"
  have eq: "analyze_fruit_shape cv img
      = Inr (if perimeter > 0 then min 100 (py_round score 2) else 50)"
    using Cons
    by (simp add: analyze_fruit_shape_value Let_def largest_def area_def perimeter_def
        hull_area_def score_def)
  have a0: "0 \<le> area" unfolding area_def by (rule contourArea_nonneg)
  have c0: "0 \<le> 4 * pi * area / (perimeter * perimeter)" using a0 by simp
  have v0: "0 \<le> (if hull_area > 0 then area / hull_area else 0)" using a0 by simp
  have "0 \<le> score" unfolding score_def using c0 v0 by simp
  then have "0 \<le> py_round score 2" by (rule py_round_nonneg)
  then have "0 \<le> min 100 (py_round score 2) \<and> min 100 (py_round score 2) \<le> 100"
    by simp
  then show ?thesis using eq by auto
qed

text \<open>
  Claim C5 (range invariant). For every valid image, whatever its resolution, the
  local analysis returns a record whose \<open>brown_rot_percentage\<close>,
  \<open>black_spots_percentage\<close>, \<open>texture_score\<close>, \<open>shape_integrity\<close> and \<open>freshness_score\<close>
  lie in [0, 100] and whose \<open>color_variance\<close> is not negative. The OpenCV calls are
  arbitrary, except that the HSV view and the edge map have the shape of the image.
\<close>

theorem local_metrics_in_range:
  assumes "valid_image img" and "shape_contract cv img"
  shows "\<exists>m. perform_local_analysis cv img = Inr m
           \<and> 0 \<le> brown_rot_percentage m \<and> brown_rot_percentage m \<le> 100
           \<and> 0 \<le> black_spots_percentage m \<and> black_spots_percentage m \<le> 100
           \<and> 0 \<le> texture_score m \<and> texture_score m \<le> 100
           \<and> 0 \<le> shape_integrity m \<and> shape_integrity m \<le> 100
           \<and> 0 \<le> freshness_score m \<and> freshness_score m \<le> 100
           \<and> 0 \<le> color_variance m"
proof -
  define hsv where "hsv = cvtColor_BGR2HSV cv img"
  define lab where "lab = cvtColor_BGR2LAB cv img"
  define gray where "gray = cvtColor_BGR2GRAY cv img"
  have rect: "rectangular img" and h0: "0 < shape0 img" and w0: "0 < shape1 img"
    using assms(1) by (simp_all add: valid_image_def)
  have same: "same_shape hsv img" and same_edges: "same_shape (Canny cv gray) img"
    using assms(2) by (simp_all add: shape_contract_def hsv_def gray_def)
  have area: "size_of img = shape0 img * shape1 img" using rect by (rule rectangular_size)
  have total: "shape0 hsv * shape1 hsv = size_of img"
    using same_shape_shape0 [OF same] same_shape_shape1 [OF same] area by simp
  have size_hsv: "size_of hsv = size_of img" using same by (rule same_shape_size)
  have pos: "0 < shape0 hsv * shape1 hsv" using total area h0 w0 by simp
  have "countNonZero (brown_rot_mask hsv lab) \<le> size_of (brown_rot_mask hsv lab)"
    by (rule countNonZero_le_size)
  also have "\<dots> \<le> size_of hsv" by (rule size_brown_rot_mask)
  finally have brown_le: "countNonZero (brown_rot_mask hsv lab) \<le> shape0 hsv * shape1 hsv"
    using total size_hsv by simp
  have "countNonZero (black_spots_mask cv hsv gray) \<le> size_of (black_spots_mask cv hsv gray)"
    by (rule countNonZero_le_size)
  also have "\<dots> \<le> size_of hsv" by (rule size_black_spots_mask)
  finally have black_le: "countNonZero (black_spots_mask cv hsv gray) \<le> shape0 hsv * shape1 hsv"
    using total size_hsv by simp
  obtain brown where brown: "detect_brown_rot_enhanced hsv lab = Inr brown"
      "0 \<le> brown" "brown \<le> 100"
    using mask_percentage_range [OF brown_le pos] unfolding detect_brown_rot_enhanced_def
    by blast
  obtain black where black: "detect_black_spots_enhanced cv hsv gray = Inr black"
      "0 \<le> black" "black \<le> 100"
    using mask_percentage_range [OF black_le pos] unfolding detect_black_spots_enhanced_def
    by blast
  obtain shape where shape: "analyze_fruit_shape cv img = Inr shape" "0 \<le> shape" "shape \<le> 100"
    using shape_range [of cv img] by blast
  have "0 < size_of (Canny cv (cvtColor_BGR2GRAY cv img))"
    using same_shape_size [OF same_edges] area h0 w0 by (simp add: gray_def)
  then obtain fresh where fresh: "calculate_freshness_score_enhanced cv hsv lab img = Inr fresh"
      "0 \<le> fresh" "fresh \<le> 100"
    using freshness_range [of cv img hsv lab] by blast
  have eq: "perform_local_analysis cv img =
      Inr \<lparr>brown_rot_percentage = brown, black_spots_percentage = black,
           color_variance = analyze_color_uniformity cv img,
           texture_score = analyze_texture_quality cv img,
           shape_integrity = shape, freshness_score = fresh\<rparr>"
    using brown(1) black(1) shape(1) fresh(1)
    by (simp add: perform_local_analysis_def Let_def bind_err_def hsv_def lab_def gray_def)
  show ?thesis
    using eq brown(2,3) black(2,3) shape(2,3) fresh(2,3) texture_range [of cv img]
      color_variance_nonneg [of cv img]
    by simp
qed

text \<open>The invariant on the 4x6 example image.\<close>

theorem local_metrics_in_range_witness:
  "valid_image block_bgr \<and> shape_contract example_cv2 block_bgr
   \<and> (\<exists>m. perform_local_analysis example_cv2 block_bgr = Inr m
          \<and> 0 \<le> brown_rot_percentage m \<and> brown_rot_percentage m \<le> 100
          \<and> 0 \<le> freshness_score m \<and> freshness_score m \<le> 100)"
proof -
  have v: "valid_image block_bgr" by code_simp
  have c: "shape_contract example_cv2 block_bgr" by code_simp
  show ?thesis using v c local_metrics_in_range [OF v c] by blast
qed

section \<open>The overlay and the detectors\<close>
















section \<open>Bounds on pi\<close>

text \<open>From the series of the sine at 3.1415 and at 3.1417.\<close>

lemma sum_lessThan_16:
  fixes f :: "nat \<Rightarrow> real"
  shows "(\<Sum>m<16. f m) = f 0 + f 1 + f 2 + f 3 + f 4 + f 5 + f 6 + f 7 + f 8 + f 9
     + f 10 + f 11 + f 12 + f 13 + f 14 + f 15"
  by (simp add: eval_nat_numeral lessThan_Suc algebra_simps)

lemma sin_partial_16:
  "(\<Sum>m<16. sin_coeff m * x ^ m) =
     x - x^3 / 6 + x^5 / 120 - x^7 / 5040 + x^9 / 362880 - x^11 / 39916800
       + x^13 / 6227020800 - x^15 / 1307674368000"
  unfolding sum_lessThan_16 by (simp add: sin_coeff_def fact_numeral)

lemma sin_lower_31415:
  "0 < (31415 / 10000 :: real) - (31415 / 10000) ^ 3 / 6 + (31415 / 10000) ^ 5 / 120
     - (31415 / 10000) ^ 7 / 5040 + (31415 / 10000) ^ 9 / 362880
     - (31415 / 10000) ^ 11 / 39916800 + (31415 / 10000) ^ 13 / 6227020800
     - (31415 / 10000) ^ 15 / 1307674368000 - (31415 / 10000) ^ 16 / 20922789888000"
  by (simp add: power_divide)

lemma sin_upper_31417:
  "(31417 / 10000 :: real) - (31417 / 10000) ^ 3 / 6 + (31417 / 10000) ^ 5 / 120
     - (31417 / 10000) ^ 7 / 5040 + (31417 / 10000) ^ 9 / 362880
     - (31417 / 10000) ^ 11 / 39916800 + (31417 / 10000) ^ 13 / 6227020800
     - (31417 / 10000) ^ 15 / 1307674368000 + (31417 / 10000) ^ 16 / 20922789888000 < 0"
  by (simp add: power_divide)

lemma pi_gt_31415: "31415 / 10000 < pi"
proof (rule ccontr)
  assume "\<not> 31415 / 10000 < pi"
  then have le: "pi \<le> 31415 / 10000" by simp
  have "(31415 / 10000 :: real) < 4" by simp
  moreover have "4 \<le> 2 * pi" using pi_ge_two by simp
  ultimately have "(31415 / 10000 :: real) < 2 * pi" by (rule less_le_trans)
  with le have s: "sin (31415 / 10000 :: real) \<le> 0" by (rule sin_le_zero)
  have b: "\<bar>sin (31415 / 10000 :: real) - (\<Sum>m<16. sin_coeff m * (31415 / 10000) ^ m)\<bar>
      \<le> inverse (fact 16) * \<bar>31415 / 10000\<bar> ^ 16"
    by (rule Maclaurin_sin_bound)
  have f: "inverse (fact 16) * \<bar>31415 / 10000 :: real\<bar> ^ 16
      = (31415 / 10000) ^ 16 / 20922789888000"
    by (simp add: fact_numeral)
  show False using b s sin_lower_31415 unfolding f sin_partial_16 by linarith
qed

lemma pi_lt_31417: "pi < 31417 / 10000"
proof (rule ccontr)
  assume "\<not> pi < 31417 / 10000"
  then have le: "31417 / 10000 \<le> pi" by simp
  have s: "0 \<le> sin (31417 / 10000 :: real)"
    by (rule sin_ge_zero) (use le in simp_all)
  have b: "\<bar>sin (31417 / 10000 :: real) - (\<Sum>m<16. sin_coeff m * (31417 / 10000) ^ m)\<bar>
      \<le> inverse (fact 16) * \<bar>31417 / 10000\<bar> ^ 16"
    by (rule Maclaurin_sin_bound)
  have f: "inverse (fact 16) * \<bar>31417 / 10000 :: real\<bar> ^ 16
      = (31417 / 10000) ^ 16 / 20922789888000"
    by (simp add: fact_numeral)
  show False using b s sin_upper_31417 unfolding f sin_partial_16 by linarith
qed

section \<open>The shape-integrity detector\<close>

lemma block_contours: "shape_contours example_cv2 block_bgr = [block_outline]"
  by code_simp

lemma block_area: "contourArea block_outline = 3"
  by (simp add: contourArea_def closing_pairs_def block_outline_def)

lemma sqrt_9: "sqrt 9 = 3"
  by (rule real_sqrt_unique) simp_all

lemma block_perimeter: "arcLength block_outline = 8"
  by (simp add: arcLength_def closing_pairs_def block_outline_def sqrt_9)

lemma block_hull: "convexHull example_cv2 block_outline = block_outline"
  by (simp add: example_cv2_def)

lemma block_score_floor: "round_half_even ((45 * pi / 4 + 40) * 10 ^ 2) = 7534"
proof -
  define y where "y = (45 * pi / 4 + 40) * 10 ^ 2"
  have lo: "7534 < y" unfolding y_def using pi_gt_31415 by simp
  have hi: "y < 7534 + 1 / 2" unfolding y_def using pi_lt_31417 by simp
  have fl: "\<lfloor>y\<rfloor> = 7534" using lo hi by (intro floor_unique) simp_all
  show ?thesis unfolding y_def [symmetric] round_half_even_def Let_def fl using hi by simp
qed

lemma block_shape: "analyze_fruit_shape example_cv2 block_bgr = Inr (7534 / 100)"
proof -
  have "py_round (45 * pi / 4 + 40) 2 = 7534 / 100"
    unfolding py_round_def block_score_floor by simp
  moreover have "(4 * pi * 3 / (8 * 8) * 0.6 + 3 / 3 * 0.4) * 100 = 45 * pi / 4 + (40::real)"
    by simp
  ultimately show ?thesis
    by (simp add: analyze_fruit_shape_value block_contours block_area block_perimeter
        block_hull Let_def)
qed

text \<open>
  Claim C9 (shape integrity), as the code has it. The detector never raises. With no contour
  it returns 50; with a largest contour of positive perimeter it returns the blend
  \<open>(circularity * 0.6 + convexity * 0.4) * 100\<close> rounded to two decimals and capped at 100,
  where \<open>circularity = 4 * pi * area / perimeter^2\<close> and \<open>convexity = area / hullArea\<close>, taken
  as 0 when the hull area is 0; with a largest contour of perimeter 0 it returns 50.
\<close>

theorem shape_integrity_result:
  "analyze_fruit_shape cv img =
     Inr (case shape_contours cv img of
            [] \<Rightarrow> 50
          | c # cs \<Rightarrow>
              (let largest_contour = max_by contourArea c cs;
                   area = contourArea largest_contour;
                   perimeter = arcLength largest_contour;
                   hull_area = contourArea (convexHull cv largest_contour)
               in if perimeter > 0
                  then min 100 (py_round
                         ((4 * pi * area / (perimeter * perimeter) * 0.6
                           + (if hull_area > 0 then area / hull_area else 0) * 0.4) * 100) 2)
                  else 50))"
  by (rule analyze_fruit_shape_value)

text \<open>The result on the 4x6 example image: the blend 75.3429... is returned as 75.34.\<close>

theorem shape_integrity_result_witness:
  "analyze_fruit_shape example_cv2 block_bgr
     = Inr (min 100 (py_round ((4 * pi * 3 / (8 * 8) * 0.6 + 3 / 3 * 0.4) * 100) 2))"
  using shape_integrity_result [of example_cv2 block_bgr]
  by (simp add: block_contours block_area block_perimeter block_hull Let_def)

text \<open>
  On the example image the largest contour has area 3, perimeter 8 and hull area 3. The
  detector returns 75.34, not the unrounded blend.
\<close>

theorem shape_integrity_result_counterexample:
  "shape_contours example_cv2 block_bgr = [block_outline]
   \<and> 0 < arcLength block_outline
   \<and> analyze_fruit_shape example_cv2 block_bgr = Inr (7534 / 100)
   \<and> 7534 / 100 \<noteq>
       min 100 ((4 * pi * contourArea block_outline / (arcLength block_outline)\<^sup>2 * 0.6
                 + contourArea block_outline
                     / contourArea (convexHull example_cv2 block_outline) * 0.4) * 100)"
proof -
  have "(4 * pi * 3 / (8::real)\<^sup>2 * 0.6 + 3 / 3 * 0.4) * 100 = 45 * pi / 4 + 40"
    by simp
  moreover have "7534 / 100 < 45 * pi / 4 + 40" using pi_gt_31415 by simp
  moreover have "45 * pi / 4 + 40 < 100" using pi_lt_31417 by simp
  ultimately have "7534 / 100 \<noteq>
       min 100 ((4 * pi * 3 / (8::real)\<^sup>2 * 0.6 + 3 / 3 * 0.4) * 100)"
    by simp
  then show ?thesis
    using block_contours block_shape by (simp add: block_area block_perimeter block_hull)
qed

section \<open>Monotonicity of the dark-pixel mask\<close>

text \<open>
  The black-spot detector up to its contour stage: the conjunction of the two thresholds
  and the opening are monotone in the set of dark pixels, and so is the pixel count. The
  contour stage that follows is decided by \<open>findContours\<close>, \<open>contourArea\<close> on the traced
  border and \<open>drawContours\<close>.
\<close>

lemma mask_le_length: "mask_le a b \<Longrightarrow> length a = length b"
  unfolding mask_le_def by (rule list_all2_lengthD)

lemma mask_le_row: "mask_le a b \<Longrightarrow> i < length a \<Longrightarrow> list_all2 (\<lambda>x y. x \<longrightarrow> y) (a ! i) (b ! i)"
  unfolding mask_le_def by (rule list_all2_nthD)

lemma mask_le_row_length: "mask_le a b \<Longrightarrow> i < length a \<Longrightarrow> length (a ! i) = length (b ! i)"
  using mask_le_row by (blast dest: list_all2_lengthD)

lemma mask_le_pixel:
  "mask_le a b \<Longrightarrow> i < length a \<Longrightarrow> j < length (a ! i) \<Longrightarrow> a ! i ! j \<Longrightarrow> b ! i ! j"
  using mask_le_row [of a b i] by (auto dest: list_all2_nthD)

lemma mask_leI:
  assumes "length a = length b"
    and "\<And>i. i < length a \<Longrightarrow> length (a ! i) = length (b ! i)"
    and "\<And>i j. i < length a \<Longrightarrow> j < length (a ! i) \<Longrightarrow> a ! i ! j \<Longrightarrow> b ! i ! j"
  shows "mask_le a b"
  unfolding mask_le_def using assms by (simp add: list_all2_conv_all_nth)

lemma mask_at_None:
  assumes "mask_le a b"
  shows "mask_at a i j = None \<longleftrightarrow> mask_at b i j = None"
proof (cases "0 \<le> i \<and> i < int (length a)")
  case True
  then have ni: "nat i < length a" by linarith
  have len: "length (a ! nat i) = length (b ! nat i)"
    using assms ni by (rule mask_le_row_length)
  show ?thesis
    using True mask_le_length [OF assms] len by (simp add: mask_at_def Let_def)
next
  case False
  then show ?thesis
    using mask_le_length [OF assms] by (auto simp add: mask_at_def)
qed

lemma mask_at_True: "mask_le a b \<Longrightarrow> mask_at a i j = Some True \<Longrightarrow> mask_at b i j = Some True"
  using mask_le_length [of a b] mask_le_row_length [of a b "nat i"]
    mask_le_pixel [of a b "nat i" "nat j"]
  by (auto simp add: mask_at_def Let_def split: if_splits)

lemma erode_nth:
  "i < length m \<Longrightarrow> j < length (m ! i) \<Longrightarrow>
   erode selem m ! i ! j = list_all (\<lambda>(di, dj).
     (case mask_at m (int i + di) (int j + dj) of None \<Rightarrow> True | Some b \<Rightarrow> b)) selem"
  by (simp add: erode_def)

lemma dilate_nth:
  "i < length m \<Longrightarrow> j < length (m ! i) \<Longrightarrow>
   dilate selem m ! i ! j = list_ex (\<lambda>(di, dj).
     (case mask_at m (int i + di) (int j + dj) of None \<Rightarrow> False | Some b \<Rightarrow> b)) selem"
  by (simp add: dilate_def)

lemma erode_shape: "length (erode selem m) = length m"
  "i < length m \<Longrightarrow> length (erode selem m ! i) = length (m ! i)"
  by (simp_all add: erode_def)

lemma dilate_shape: "length (dilate selem m) = length m"
  "i < length m \<Longrightarrow> length (dilate selem m ! i) = length (m ! i)"
  by (simp_all add: dilate_def)

lemma erode_mono:
  assumes "mask_le a b"
  shows "mask_le (erode selem a) (erode selem b)"
proof (rule mask_leI)
  show "length (erode selem a) = length (erode selem b)"
    using mask_le_length [OF assms] by (simp add: erode_shape)
next
  fix i assume "i < length (erode selem a)"
  then have i: "i < length a" "i < length b"
    using mask_le_length [OF assms] by (simp_all add: erode_shape)
  then show "length (erode selem a ! i) = length (erode selem b ! i)"
    using mask_le_row_length [OF assms, of i] by (simp add: erode_shape)
next
  fix i j
  assume "i < length (erode selem a)" and "j < length (erode selem a ! i)"
    and set: "erode selem a ! i ! j"
  then have i: "i < length a" "i < length b" and j: "j < length (a ! i)" "j < length (b ! i)"
    using mask_le_length [OF assms] mask_le_row_length [OF assms, of i]
    by (simp_all add: erode_shape)
  have "case mask_at b (int i + di) (int j + dj) of None \<Rightarrow> True | Some v \<Rightarrow> v"
    if "(di, dj) \<in> set selem" for di dj
  proof -
    have "case mask_at a (int i + di) (int j + dj) of None \<Rightarrow> True | Some v \<Rightarrow> v"
      using set that i j by (auto simp add: erode_nth list_all_iff)
    then show ?thesis
      using mask_at_None [OF assms, of "int i + di" "int j + dj"]
        mask_at_True [OF assms, of "int i + di" "int j + dj"]
      by (auto split: option.splits)
  qed
  then show "erode selem b ! i ! j"
    using i j by (auto simp add: erode_nth list_all_iff)
qed

lemma dilate_mono:
  assumes "mask_le a b"
  shows "mask_le (dilate selem a) (dilate selem b)"
proof (rule mask_leI)
  show "length (dilate selem a) = length (dilate selem b)"
    using mask_le_length [OF assms] by (simp add: dilate_shape)
next
  fix i assume "i < length (dilate selem a)"
  then have i: "i < length a" "i < length b"
    using mask_le_length [OF assms] by (simp_all add: dilate_shape)
  then show "length (dilate selem a ! i) = length (dilate selem b ! i)"
    using mask_le_row_length [OF assms, of i] by (simp add: dilate_shape)
next
  fix i j
  assume "i < length (dilate selem a)" and "j < length (dilate selem a ! i)"
    and set: "dilate selem a ! i ! j"
  then have i: "i < length a" "i < length b" and j: "j < length (a ! i)" "j < length (b ! i)"
    using mask_le_length [OF assms] mask_le_row_length [OF assms, of i]
    by (simp_all add: dilate_shape)
  obtain di dj where off: "(di, dj) \<in> set selem"
    and hit: "mask_at a (int i + di) (int j + dj) = Some True"
    using set i j by (auto simp add: dilate_nth list_ex_iff split: option.splits)
  have "mask_at b (int i + di) (int j + dj) = Some True"
    using assms hit by (rule mask_at_True)
  then show "dilate selem b ! i ! j"
    using off i j by (auto simp add: dilate_nth list_ex_iff intro!: bexI [of _ "(di, dj)"])
qed

lemma morph_open_mono: "mask_le a b \<Longrightarrow> mask_le (morph_open selem a) (morph_open selem b)"
  unfolding morph_open_def by (intro dilate_mono erode_mono)

lemma bitwise_and_mono:
  assumes "mask_le a a'" and "mask_le b b'"
  shows "mask_le (bitwise_and a b) (bitwise_and a' b')"
  using assms unfolding mask_le_def bitwise_and_def
  by (auto simp add: list_all2_conv_all_nth)

lemma black_combined_mask_mono:
  assumes "mask_le (black_mask_hsv hsv1) (black_mask_hsv hsv2)"
    and "mask_le (black_mask_gray gray1) (black_mask_gray gray2)"
  shows "mask_le (black_combined_mask hsv1 gray1) (black_combined_mask hsv2 gray2)"
  unfolding black_combined_mask_def using assms by (intro morph_open_mono bitwise_and_mono)

lemma count_row_mono:
  "list_all2 (\<lambda>x y. x \<longrightarrow> y) r r' \<Longrightarrow> length (filter (\<lambda>b. b) r) \<le> length (filter (\<lambda>b. b) r')"
  by (induction rule: list_all2_induct) auto

lemma countNonZero_mono: "mask_le a b \<Longrightarrow> countNonZero a \<le> countNonZero b"
  unfolding mask_le_def countNonZero_def
proof (induction rule: list_all2_induct)
  case Nil
  then show ?case by simp
next
  case (Cons r a r' b)
  then show ?case using count_row_mono [of r r'] by simp
qed

end
